theory Spec2Isabelle
  imports Main "HOL-Library.AList"
begin

section \<open>Errors\<close>

text \<open>
  Every failure of the program is a thrown \<^verbatim>\<open>new Error(message)\<close>, or a \<^verbatim>\<open>TypeError\<close>
  raised by the language itself (a property read on \<^verbatim>\<open>null\<close> or \<^verbatim>\<open>undefined\<close>, a
  call of something that is not a function, \<^verbatim>\<open>in\<close> applied to a primitive).
\<close>

datatype error = Error string | TypeError

fun message :: "error \<Rightarrow> string" where
  "message (Error m) = m"
| "message TypeError = ''TypeError''"

section \<open>JavaScript values\<close>

text \<open>
  The source declares
  \<^verbatim>\<open>type JsonValue = JsonPrimitive | JsonValue[] | { [key: string]: JsonValue }\<close>.
  \<open>JObj kvs\<close> is an object as \<^verbatim>\<open>JSON.parse\<close> or an object literal creates it: its
  prototype is \<^verbatim>\<open>Object.prototype\<close> and \<open>kvs\<close> is the list of its own entries in the order
  \<^verbatim>\<open>Object.entries\<close> yields them; a JavaScript object has no two entries with the same key.
  An object parsed from JSON may have an own entry with the key \<^verbatim>\<open>__proto__\<close>.

  The program also makes objects whose prototype is something else, by an assignment
  to \<^verbatim>\<open>__proto__\<close>: \<open>JObjWith p kvs\<close> has the own entries \<open>kvs\<close> and the prototype \<open>p\<close>, with
  \<open>JNull\<close> for no prototype at all.  \<open>JBuiltin\<close> holds what a property read can bring up
  from the built-in prototypes: the two prototype objects and their methods.

  Numbers are integers (identifiers, counts, lengths); no function below computes with
  a number of the payload.  Strings are lists of 8-bit code units.
\<close>

datatype builtin = ObjectPrototype | ArrayPrototype | BuiltinFunction string

datatype json =
    JNull
  | JBool bool
  | JNum int
  | JStr string
  | JArr "json list"
  | JObj "(string \<times> json) list"
  | JObjWith json "(string \<times> json) list"
  | JBuiltin builtin

type_synonym jrecord = "(string \<times> json) list"

text \<open>\<^verbatim>\<open>typeof value === "string"\<close> and the string it holds.\<close>

fun is_string :: "json \<Rightarrow> bool" where
  "is_string (JStr _) = True"
| "is_string _ = False"

fun the_string :: "json \<Rightarrow> string" where
  "the_string (JStr s) = s"
| "the_string _ = []"

text \<open>
  \<^verbatim>\<open>typeof value === "object" && value !== null\<close>: arrays and objects, the built-in
  prototype objects among them; the type of a function is \<^verbatim>\<open>"function"\<close>.
\<close>

fun is_object :: "json \<Rightarrow> bool" where
  "is_object (JArr _) = True"
| "is_object (JObj _) = True"
| "is_object (JObjWith _ _) = True"
| "is_object (JBuiltin (BuiltinFunction _)) = False"
| "is_object (JBuiltin _) = True"
| "is_object _ = False"

text \<open>
  A value of the language type Object: everything that is not \<^verbatim>\<open>null\<close> or a primitive.
  \<^verbatim>\<open>in\<close> throws on the others, and the \<^verbatim>\<open>__proto__\<close> setter ignores them, \<^verbatim>\<open>null\<close> apart.
\<close>

fun object_type :: "json \<Rightarrow> bool" where
  "object_type (JArr _) = True"
| "object_type (JObj _) = True"
| "object_type (JObjWith _ _) = True"
| "object_type (JBuiltin _) = True"
| "object_type _ = False"

text \<open>\<^verbatim>\<open>Array.isArray\<close>; \<^verbatim>\<open>Array.prototype\<close> is itself an array, of length 0.\<close>

fun is_array :: "json \<Rightarrow> bool" where
  "is_array (JArr _) = True"
| "is_array (JBuiltin ArrayPrototype) = True"
| "is_array _ = False"

section \<open>Numbers as text\<close>

text \<open>The decimal numeral of an integer, as \<^verbatim>\<open>String(n)\<close> and template literals give it.\<close>

definition digit_char :: "nat \<Rightarrow> char" where
  "digit_char d = char_of (of_char CHR ''0'' + d)"

fun nat_text :: "nat \<Rightarrow> string" where
  "nat_text n = (if n < 10 then [digit_char n] else nat_text (n div 10) @ [digit_char (n mod 10)])"

declare nat_text.simps [simp del]

definition int_text :: "int \<Rightarrow> string" where
  "int_text i = (if i < 0 then CHR ''-'' # nat_text (nat (- i)) else nat_text (nat i))"

section \<open>Property access\<close>

text \<open>
  \<open>own_property v k\<close> is the own property \<open>k\<close> of \<open>v\<close>, \<open>None\<close> when it has none: an entry
  of an object, an index or the length of an array or a string.
\<close>

definition index_of_key :: "nat \<Rightarrow> string \<Rightarrow> nat option" where
  "index_of_key n k = find (\<lambda>i. nat_text i = k) [0..<n]"

fun own_property :: "json \<Rightarrow> string \<Rightarrow> json option" where
  "own_property (JObj kvs) k = map_of kvs k"
| "own_property (JObjWith p kvs) k = map_of kvs k"
| "own_property (JArr xs) k =
     (if k = ''length'' then Some (JNum (int (length xs)))
      else map_option (\<lambda>i. xs ! i) (index_of_key (length xs) k))"
| "own_property (JStr s) k =
     (if k = ''length'' then Some (JNum (int (length s)))
      else map_option (\<lambda>i. JStr [s ! i]) (index_of_key (length s) k))"
| "own_property v k = None"

text \<open>
  The string-keyed properties of \<^verbatim>\<open>Object.prototype\<close> and of \<^verbatim>\<open>Array.prototype\<close> (ECMAScript
  2023, with the legacy accessors of its annex B).  All are methods, but for
  \<^verbatim>\<open>Array.prototype.length\<close>, which is 0, and \<^verbatim>\<open>Object.prototype.__proto__\<close>, which is an
  accessor: its getter returns the prototype of the object it is read on, its setter
  gives that object a new prototype.
\<close>

definition OBJECT_PROTOTYPE_METHODS :: "string list" where
  "OBJECT_PROTOTYPE_METHODS =
     [''constructor'', ''__defineGetter__'', ''__defineSetter__'', ''hasOwnProperty'',
      ''__lookupGetter__'', ''__lookupSetter__'', ''isPrototypeOf'', ''propertyIsEnumerable'',
      ''toString'', ''valueOf'', ''toLocaleString'']"

definition ARRAY_PROTOTYPE_METHODS :: "string list" where
  "ARRAY_PROTOTYPE_METHODS =
     [''constructor'', ''at'', ''concat'', ''copyWithin'', ''fill'', ''find'', ''findIndex'',
      ''findLast'', ''findLastIndex'', ''lastIndexOf'', ''pop'', ''push'', ''reverse'', ''shift'',
      ''unshift'', ''slice'', ''sort'', ''splice'', ''includes'', ''indexOf'', ''join'', ''keys'',
      ''entries'', ''values'', ''forEach'', ''filter'', ''flat'', ''flatMap'', ''map'', ''every'',
      ''some'', ''reduce'', ''reduceRight'', ''toLocaleString'', ''toString'', ''toReversed'',
      ''toSorted'', ''toSpliced'', ''with'']"

text \<open>
  What a search for the property \<open>k\<close> finds, starting at a value and going up its
  prototype chain: nothing, a data property with its value, or the accessor
  \<^verbatim>\<open>__proto__\<close> of \<^verbatim>\<open>Object.prototype\<close>.
\<close>

datatype found = NotFound | Data json | ProtoAccessor

definition lookup_ObjectPrototype :: "string \<Rightarrow> found" where
  "lookup_ObjectPrototype k =
     (if k = ''__proto__'' then ProtoAccessor
      else if k \<in> set OBJECT_PROTOTYPE_METHODS
      then Data (JBuiltin (BuiltinFunction (''Object.prototype.'' @ k)))
      else NotFound)"

definition lookup_ArrayPrototype :: "string \<Rightarrow> found" where
  "lookup_ArrayPrototype k =
     (if k = ''length'' then Data (JNum 0)
      else if k \<in> set ARRAY_PROTOTYPE_METHODS
      then Data (JBuiltin (BuiltinFunction (''Array.prototype.'' @ k)))
      else lookup_ObjectPrototype k)"

text \<open>
  The search ends at \<^verbatim>\<open>null\<close>.  On a primitive it sees the own properties only: the
  program reads from a value that may be a primitive only the names \<^verbatim>\<open>result\<close>, \<^verbatim>\<open>error\<close>,
  \<^verbatim>\<open>errorMessage\<close>, \<^verbatim>\<open>item\<close>, \<^verbatim>\<open>items\<close>, \<^verbatim>\<open>highlights\<close>, \<^verbatim>\<open>created\<close> and \<^verbatim>\<open>_id\<close>, which no built-in
  prototype has.  The program reads no property of a function.
\<close>

fun lookup :: "json \<Rightarrow> string \<Rightarrow> found" where
  "lookup (JObj kvs) k =
     (case map_of kvs k of Some v \<Rightarrow> Data v | None \<Rightarrow> lookup_ObjectPrototype k)"
| "lookup (JObjWith p kvs) k =
     (case map_of kvs k of Some v \<Rightarrow> Data v | None \<Rightarrow> lookup p k)"
| "lookup (JArr xs) k =
     (case own_property (JArr xs) k of Some v \<Rightarrow> Data v | None \<Rightarrow> lookup_ArrayPrototype k)"
| "lookup (JStr s) k =
     (case own_property (JStr s) k of Some v \<Rightarrow> Data v | None \<Rightarrow> NotFound)"
| "lookup (JBuiltin ArrayPrototype) k = lookup_ArrayPrototype k"
| "lookup (JBuiltin b) k = lookup_ObjectPrototype k"
| "lookup v k = NotFound"

text \<open>The prototype of an object, \<open>JNull\<close> when it has none.\<close>

fun prototype_of :: "json \<Rightarrow> json" where
  "prototype_of (JObj kvs) = JBuiltin ObjectPrototype"
| "prototype_of (JObjWith p kvs) = p"
| "prototype_of (JArr xs) = JBuiltin ArrayPrototype"
| "prototype_of (JBuiltin ArrayPrototype) = JBuiltin ObjectPrototype"
| "prototype_of (JBuiltin (BuiltinFunction n)) = JBuiltin (BuiltinFunction ''Function.prototype'')"
| "prototype_of v = JNull"

text \<open>
  \<^verbatim>\<open>v[k]\<close> and \<^verbatim>\<open>v.k\<close>, \<open>None\<close> for \<^verbatim>\<open>undefined\<close>; and \<^verbatim>\<open>k in v\<close>, for a \<open>v\<close> on which \<^verbatim>\<open>in\<close> does not
  throw.
\<close>

definition get_property :: "json \<Rightarrow> string \<Rightarrow> json option" where
  "get_property v k =
     (case lookup v k of
        NotFound \<Rightarrow> None
      | Data x \<Rightarrow> Some x
      | ProtoAccessor \<Rightarrow> Some (prototype_of v))"

definition has_property :: "json \<Rightarrow> string \<Rightarrow> bool" where
  "has_property v k = (lookup v k \<noteq> NotFound)"

text \<open>The own entries of an object, which \<^verbatim>\<open>{ ...v }\<close> and \<^verbatim>\<open>Object.entries(v)\<close> enumerate.\<close>

fun spread :: "json \<Rightarrow> jrecord" where
  "spread (JObj kvs) = kvs"
| "spread (JObjWith p kvs) = kvs"
| "spread (JArr xs) = map (\<lambda>i. (nat_text i, xs ! i)) [0..<length xs]"
| "spread (JStr s) = map (\<lambda>i. (nat_text i, JStr [s ! i])) [0..<length s]"
| "spread v = []"

text \<open>
  The object with the prototype \<open>p\<close> and the own entries \<open>kvs\<close>.
\<close>

definition object_with :: "json \<Rightarrow> jrecord \<Rightarrow> json" where
  "object_with p kvs = (if p = JBuiltin ObjectPrototype then JObj kvs else JObjWith p kvs)"

text \<open>
  The setter of \<^verbatim>\<open>__proto__\<close>, called on the object \<open>target\<close> with the value \<open>v\<close>: an object
  or \<^verbatim>\<open>null\<close> becomes the prototype of \<open>target\<close>, any other value is ignored.  (The setter
  throws when \<open>target\<close> is on the prototype chain of \<open>v\<close>; the objects the program
  assigns to are fresh, and on no chain.)
\<close>

definition set_prototype :: "json \<Rightarrow> json \<Rightarrow> json" where
  "set_prototype target v =
     (if object_type v \<or> v = JNull then object_with v (spread target) else target)"

text \<open>
  The assignment \<^verbatim>\<open>target[k] = v\<close> to an ordinary object.  An own property \<open>k\<close> is
  overwritten in place.  Otherwise the prototype chain is searched: if it holds the
  accessor, its setter runs; if it holds a data property or nothing, \<open>target\<close> gets a new
  own property at the end of its entries (\<open>AList.update\<close> does both).
\<close>

definition assign :: "json \<Rightarrow> string \<Rightarrow> json \<Rightarrow> json" where
  "assign target k v =
     (if own_property target k = None \<and> lookup (prototype_of target) k = ProtoAccessor
      then set_prototype target v
      else object_with (prototype_of target) (AList.update k v (spread target)))"

text \<open>Truthiness of a value that may be \<^verbatim>\<open>undefined\<close>.\<close>

fun truthy :: "json option \<Rightarrow> bool" where
  "truthy None = False"
| "truthy (Some JNull) = False"
| "truthy (Some (JBool b)) = b"
| "truthy (Some (JNum n)) = (n \<noteq> 0)"
| "truthy (Some (JStr s)) = (s \<noteq> [])"
| "truthy (Some v) = True"

section \<open>Title cleaning utilities\<close>

text \<open>
  \<^verbatim>\<open>String.prototype.trim\<close> removes white space and line terminators from both ends.
  Among the code units below 256 these are TAB, LF, VT, FF, CR, SPACE and NBSP.
\<close>

definition is_ws :: "char \<Rightarrow> bool" where
  "is_ws c = (of_char c \<in> {9, 10, 11, 12, 13, 32, 160 :: nat})"

definition trim :: "string \<Rightarrow> string" where
  "trim s = rev (dropWhile is_ws (rev (dropWhile is_ws s)))"

definition startsWith :: "string \<Rightarrow> char \<Rightarrow> bool" where
  "startsWith s c = (s \<noteq> [] \<and> hd s = c)"

definition endsWith :: "string \<Rightarrow> char \<Rightarrow> bool" where
  "endsWith s c = (s \<noteq> [] \<and> last s = c)"

text \<open>\<^verbatim>\<open>s.slice(1, -1)\<close>: drop the first and the last code unit (empty when \<open>s\<close> has one).\<close>

definition slice_1_m1 :: "string \<Rightarrow> string" where
  "slice_1_m1 s = butlast (tl s)"

definition dquote :: char where
  "dquote = CHR 0x22"

definition squote :: char where
  "squote = CHR 0x27"

text \<open>
  \<^verbatim>\<open>
  function cleanTitle(title: string): string {
    if (typeof title !== "string") {return title;}
    const cleaned = title.trim();
    if ((cleaned.startsWith('"') && cleaned.endsWith('"')) ||
        (cleaned.startsWith("'") && cleaned.endsWith("'"))) {
      return cleaned.slice(1, -1);
    }
    return cleaned;
  }
  \<close>
\<close>

definition cleanTitle :: "string \<Rightarrow> string" where
  "cleanTitle title =
     (let cleaned = trim title in
      if (startsWith cleaned dquote \<and> endsWith cleaned dquote) \<or>
         (startsWith cleaned squote \<and> endsWith cleaned squote)
      then slice_1_m1 cleaned
      else cleaned)"

text \<open>
  \<^verbatim>\<open>
  function cleanTitlesInData<T>(data: T): T {
    if (!data || typeof data !== "object") {return data;}
    if (Array.isArray(data)) {
      return data.map(item => cleanTitlesInData(item)) as T;
    }
    const cleaned: Record<string, unknown> = {};
    for (const [key, value] of Object.entries(data as Record<string, unknown>)) {
      if (key === "title" && typeof value === "string") {
        cleaned[key] = cleanTitle(value);
      } else if (typeof value === "object" && value !== null) {
        cleaned[key] = cleanTitlesInData(value);
      } else {
        cleaned[key] = value;
      }
    }
    return cleaned as T;
  }
  \<close>
  The loop assigns each own key of \<open>data\<close> once, in entry order, to the fresh object
  \<open>cleaned\<close>.  A key other than \<^verbatim>\<open>__proto__\<close> becomes an own property of \<open>cleaned\<close>, whatever its
  prototype is by then, since \<^verbatim>\<open>__proto__\<close> is the only accessor on a prototype chain.  The
  key \<^verbatim>\<open>__proto__\<close> is not an own property of the fresh object, whose prototype is
  \<^verbatim>\<open>Object.prototype\<close> until this very assignment: the assignment calls the setter, and
  \<open>cleaned\<close> gets no such key.  \<open>object_of_assignments\<close> is the object these assignments
  leave.
\<close>

definition object_of_assignments :: "jrecord \<Rightarrow> json" where
  "object_of_assignments es =
     (let own = filter (\<lambda>(key, v). key \<noteq> ''__proto__'') es in
      case map_of es ''__proto__'' of
        None \<Rightarrow> JObj own
      | Some v \<Rightarrow> set_prototype (JObj own) v)"

fun cleanTitlesInData :: "json \<Rightarrow> json" where
  "cleanTitlesInData (JArr xs) = JArr (map cleanTitlesInData xs)"
| "cleanTitlesInData (JObj kvs) =
     object_of_assignments (map (\<lambda>(key, v).
        (key, if key = ''title'' \<and> is_string v then JStr (cleanTitle (the_string v))
              else if is_object v then cleanTitlesInData v
              else v)) kvs)"
| "cleanTitlesInData (JObjWith p kvs) =
     object_of_assignments (map (\<lambda>(key, v).
        (key, if key = ''title'' \<and> is_string v then JStr (cleanTitle (the_string v))
              else if is_object v then cleanTitlesInData v
              else v)) kvs)"
| "cleanTitlesInData (JBuiltin ObjectPrototype) = JObj []"
| "cleanTitlesInData (JBuiltin ArrayPrototype) = JArr []"
| "cleanTitlesInData v = v"

text \<open>
  What the normalizer leaves alone.  A string is \<open>enclosed\<close> when it starts and ends
  with the same quote character (the test of \<open>cleanTitle\<close>; a string that is one quote
  character is enclosed), and \<open>settled\<close> when it has no white space to trim and is not
  enclosed.  \<open>all_titles P\<close> holds when \<open>P\<close> holds of every string that
  \<open>cleanTitlesInData\<close> passes to \<open>cleanTitle\<close>.  \<open>no_proto_key\<close> holds of a value in which
  no object that the normalizer visits has an own key \<^verbatim>\<open>__proto__\<close>.
\<close>

definition enclosed :: "string \<Rightarrow> bool" where
  "enclosed s = ((startsWith s dquote \<and> endsWith s dquote) \<or>
                 (startsWith s squote \<and> endsWith s squote))"

definition settled :: "string \<Rightarrow> bool" where
  "settled s = (trim s = s \<and> \<not> enclosed s)"

fun all_titles :: "(string \<Rightarrow> bool) \<Rightarrow> json \<Rightarrow> bool" where
  "all_titles P (JArr xs) = list_all (all_titles P) xs"
| "all_titles P (JObj kvs) =
     list_all (\<lambda>(key, v).
        if key = ''title'' \<and> is_string v then P (the_string v)
        else if is_object v then all_titles P v
        else True) kvs"
| "all_titles P (JObjWith p kvs) =
     list_all (\<lambda>(key, v).
        if key = ''title'' \<and> is_string v then P (the_string v)
        else if is_object v then all_titles P v
        else True) kvs"
| "all_titles P v = True"

fun no_proto_key :: "json \<Rightarrow> bool" where
  "no_proto_key (JArr xs) = list_all no_proto_key xs"
| "no_proto_key (JObj kvs) =
     list_all (\<lambda>(key, v). key \<noteq> ''__proto__'' \<and> (if is_object v then no_proto_key v else True)) kvs"
| "no_proto_key (JObjWith p kvs) =
     list_all (\<lambda>(key, v). key \<noteq> ''__proto__'' \<and> (if is_object v then no_proto_key v else True)) kvs"
| "no_proto_key v = True"

text \<open>
  A value as \<^verbatim>\<open>JSON.parse\<close> returns it: every object in it has the prototype
  \<^verbatim>\<open>Object.prototype\<close>, and it holds nothing built in.
\<close>

fun parsed :: "json \<Rightarrow> bool" where
  "parsed (JArr xs) = list_all parsed xs"
| "parsed (JObj kvs) = list_all (\<lambda>(key, v). parsed v) kvs"
| "parsed (JObjWith p kvs) = False"
| "parsed (JBuiltin b) = False"
| "parsed v = True"

text \<open>
  \<open>title_frame x y\<close>: \<open>y\<close> has the shape of \<open>x\<close> and differs from it at most at strings
  stored under the key \<^verbatim>\<open>title\<close>.  Arrays correspond element by element, objects have
  the same keys in the same order, and anything else is equal.
\<close>

fun title_frame :: "json \<Rightarrow> json \<Rightarrow> bool" where
  "title_frame (JArr xs) (JArr ys) = list_all2 title_frame xs ys"
| "title_frame (JObj kvs) (JObj kws) =
     (map fst kvs = map fst kws \<and>
      list_all2 (\<lambda>(k, v) (k', w).
         (k = ''title'' \<and> is_string v \<and> is_string w) \<or> title_frame v w) kvs kws)"
| "title_frame v w = (v = w)"

section \<open>Field filtering utilities\<close>

datatype field_preset =
  PresetMinimal | PresetBasic | PresetStandard | PresetMedia | PresetOrganization | PresetMetadata

fun FIELD_PRESETS :: "field_preset \<Rightarrow> string list" where
  "FIELD_PRESETS PresetMinimal = [''_id'', ''link'', ''title'']"
| "FIELD_PRESETS PresetBasic =
     [''_id'', ''link'', ''title'', ''excerpt'', ''tags'', ''created'', ''domain'']"
| "FIELD_PRESETS PresetStandard =
     [''_id'', ''link'', ''title'', ''excerpt'', ''note'', ''tags'', ''type'', ''cover'',
      ''created'', ''lastUpdate'', ''domain'', ''important'']"
| "FIELD_PRESETS PresetMedia =
     [''_id'', ''link'', ''title'', ''cover'', ''media'', ''type'', ''file'']"
| "FIELD_PRESETS PresetOrganization =
     [''_id'', ''title'', ''tags'', ''collection'', ''collectionId'', ''sort'', ''removed'']"
| "FIELD_PRESETS PresetMetadata =
     [''_id'', ''created'', ''lastUpdate'', ''creatorRef'', ''user'', ''broken'', ''cache'']"

text \<open>\<^verbatim>\<open>type FieldFilter = string[] | FieldPreset\<close>\<close>

datatype field_filter = FieldArray "string list" | FieldPresetName field_preset

text \<open>
  \<^verbatim>\<open>
  function resolveFieldList(fields: FieldFilter): string[] {
    return typeof fields === "string" && fields in FIELD_PRESETS
      ? [...FIELD_PRESETS[fields as FieldPreset]]
      : fields as string[];
  }
  \<close>
\<close>

fun resolveFieldList :: "field_filter \<Rightarrow> string list" where
  "resolveFieldList (FieldPresetName p) = FIELD_PRESETS p"
| "resolveFieldList (FieldArray fs) = fs"

text \<open>
  \<^verbatim>\<open>
  function filterObjectFields(obj, fieldList: string[]) {
    if (fieldList.length === 0) {return {};}
    const filtered = {};
    for (const field of fieldList) {
      if (field in obj) { filtered[field] = obj[field]; }
    }
    return filtered;
  }
  \<close>
  \<^verbatim>\<open>in\<close> and the read \<^verbatim>\<open>obj[field]\<close> search the prototype chain of \<open>obj\<close>, and \<^verbatim>\<open>in\<close> throws
  on \<^verbatim>\<open>null\<close> and on a primitive.
\<close>

definition filterObjectFields :: "json \<Rightarrow> string list \<Rightarrow> error + json" where
  "filterObjectFields obj fieldList =
     (if fieldList = [] then Inr (JObj [])
      else if \<not> object_type obj then Inl TypeError
      else Inr (fold (\<lambda>field filtered.
                  if has_property obj field
                  then assign filtered field (the (get_property obj field))
                  else filtered) fieldList (JObj [])))"

text \<open>
  The names every object created by a literal or by \<^verbatim>\<open>JSON.parse\<close> inherits: \<^verbatim>\<open>in\<close> is true of
  them whatever the own keys are.
\<close>

definition inherited_name :: "string \<Rightarrow> bool" where
  "inherited_name k = (k = ''__proto__'' \<or> k \<in> set OBJECT_PROTOTYPE_METHODS)"

text \<open>\<^verbatim>\<open>xs.map(f)\<close> where \<open>f\<close> may throw: the first exception ends the whole map.\<close>

fun map_throwing :: "('a \<Rightarrow> error + 'b) \<Rightarrow> 'a list \<Rightarrow> error + 'b list" where
  "map_throwing f [] = Inr []"
| "map_throwing f (x # xs) =
     (case f x of
        Inl e \<Rightarrow> Inl e
      | Inr y \<Rightarrow> (case map_throwing f xs of Inl e \<Rightarrow> Inl e | Inr ys \<Rightarrow> Inr (y # ys)))"

text \<open>
  \<^verbatim>\<open>
  function filterFields(data, fields?: FieldFilter) {
    if (!fields) {return data;}
    const fieldList = resolveFieldList(fields);
    if (Array.isArray(data)) {
      return data.map((item) => filterObjectFields(item, fieldList));
    }
    return filterObjectFields(data, fieldList);
  }
  \<close>
\<close>

definition filterFields :: "json \<Rightarrow> field_filter option \<Rightarrow> error + json" where
  "filterFields data fields =
     (case fields of
        None \<Rightarrow> Inr data
      | Some f \<Rightarrow>
          let fieldList = resolveFieldList f in
          (case data of
             JArr items \<Rightarrow>
               (case map_throwing (\<lambda>item. filterObjectFields item fieldList) items of
                  Inl e \<Rightarrow> Inl e
                | Inr rs \<Rightarrow> Inr (JArr rs))
           | JBuiltin ArrayPrototype \<Rightarrow> Inr (JArr [])
           | _ \<Rightarrow> filterObjectFields data fieldList))"

text \<open>
  \<^verbatim>\<open>
  function filterApiResponse<T extends ApiResponse>(data: T, fields?: FieldFilter) {
    if (!fields) {return data;}
    const fieldList = resolveFieldList(fields);
    // For empty array, return only top-level metadata
    if (fieldList.length === 0) {
      const { item: _item, items: _items, ...metadata } = data;
      return metadata;
    }
    if ("items" in data && Array.isArray(data.items)) {
      return { ...data, items: filterFields(data.items, fields) };
    }
    if ("item" in data && typeof data.item === "object" && data.item !== null) {
      return { ...data, item: filterFields(data.item, fields) };
    }
    return data;
  }
  \<close>
  Every member of \<^verbatim>\<open>ApiResponse\<close> is an object: the envelope is its entry list.
\<close>

definition filterApiResponse :: "jrecord \<Rightarrow> field_filter option \<Rightarrow> error + jrecord" where
  "filterApiResponse data fields =
     (case fields of
        None \<Rightarrow> Inr data
      | Some f \<Rightarrow>
          let fieldList = resolveFieldList f in
          if fieldList = [] then
            Inr (filter (\<lambda>(key, v). key \<noteq> ''item'' \<and> key \<noteq> ''items'') data)
          else if map_of data ''items'' \<noteq> None \<and> is_array (the (map_of data ''items'')) then
            (case filterFields (the (map_of data ''items'')) fields of
               Inl e \<Rightarrow> Inl e
             | Inr v \<Rightarrow> Inr (AList.update ''items'' v data))
          else if map_of data ''item'' \<noteq> None \<and> is_object (the (map_of data ''item'')) then
            (case filterFields (the (map_of data ''item'')) fields of
               Inl e \<Rightarrow> Inl e
             | Inr v \<Rightarrow> Inr (AList.update ''item'' v data))
          else Inr data)"

section \<open>The remote service and the gateway client\<close>

datatype http_method = GET | POST | PUT | DELETE

text \<open>
  A call of \<^verbatim>\<open>fetch\<close>: the method (\<open>GET\<close> when the options give none), the URL without its
  query string, the query parameters after \<^verbatim>\<open>String(value)\<close> (\<^verbatim>\<open>buildUrl\<close> appends them as
  a \<^verbatim>\<open>URLSearchParams\<close> string) and the value whose \<^verbatim>\<open>JSON.stringify\<close> is the body.  The
  headers are the same for every call.
\<close>

record request =
  rq_method :: http_method
  rq_url :: string
  rq_params :: "(string \<times> string) list"
  rq_body :: "json option"

text \<open>What \<^verbatim>\<open>fetch\<close> resolves to; \<open>json_body\<close> is \<open>None\<close> when \<^verbatim>\<open>response.json()\<close> throws.\<close>

record http_response =
  ok :: bool
  status :: int
  statusText :: string
  json_body :: "json option"

text \<open>
  The service is any deterministic machine over a state of its own: it answers a request
  with a response, or \<^verbatim>\<open>fetch\<close> rejects with an error, and moves to a next state.
\<close>

type_synonym 's service = "'s \<Rightarrow> request \<Rightarrow> (error + http_response) \<times> 's"

text \<open>
  The state a tool call runs in: the service, the requests sent so far in order, and the
  module-level \<^verbatim>\<open>const watchTimestamps = new Map<number, string>()\<close>.
\<close>

record 's world =
  remote :: 's
  sent :: "request list"
  watchTimestamps :: "int \<rightharpoonup> string"

definition API_BASE_URL :: string where
  "API_BASE_URL = ''https://api.raindrop.io/rest/v1''"

definition TRASH_COLLECTION_ID :: int where
  "TRASH_COLLECTION_ID = - 99"

text \<open>\<^verbatim>\<open>String(v)\<close> for a JSON value, the message \<^verbatim>\<open>new Error(v)\<close> carries.\<close>

fun join_comma :: "string list \<Rightarrow> string" where
  "join_comma [] = []"
| "join_comma [x] = x"
| "join_comma (x # y # ys) = x @ '','' @ join_comma (y # ys)"

fun js_toString :: "json \<Rightarrow> string" where
  "js_toString JNull = ''null''"
| "js_toString (JBool b) = (if b then ''true'' else ''false'')"
| "js_toString (JNum n) = int_text n"
| "js_toString (JStr s) = s"
| "js_toString (JArr xs) =
     join_comma (map (\<lambda>x. if x = JNull then [] else js_toString x) xs)"
| "js_toString (JObj kvs) = ''[object Object]''"
| "js_toString (JObjWith p kvs) = ''[object Object]''"
| "js_toString (JBuiltin ObjectPrototype) = ''[object Object]''"
| "js_toString (JBuiltin ArrayPrototype) = []"
| "js_toString (JBuiltin (BuiltinFunction n)) = ''function '' @ n @ ''() { [native code] }''"

text \<open>
  \<^verbatim>\<open>
  private async handleResponse<T>(response: Response): Promise<T> {
    let data: unknown;
    try {
      data = await response.json() as unknown;
    } catch {
      throw new Error(`Failed to parse JSON response: ${response.status} ${response.statusText}`);
    }
    const parsedData = data as ApiResponse | RaindropApiError;
    if (!response.ok || parsedData.result === false) {
      const error = parsedData as RaindropApiError;
      throw new Error(
        error.errorMessage || error.error || `API request failed: ${response.status}`
      );
    }
    return cleanTitlesInData(parsedData) as T;
  }
  \<close>
  A body that is \<^verbatim>\<open>null\<close> makes the first property read throw.
\<close>

definition handleResponse :: "http_response \<Rightarrow> error + json" where
  "handleResponse response =
     (case json_body response of
        None \<Rightarrow>
          Inl (Error (''Failed to parse JSON response: '' @ int_text (status response)
                      @ '' '' @ statusText response))
      | Some parsedData \<Rightarrow>
          if parsedData = JNull then Inl TypeError
          else if \<not> ok response \<or> get_property parsedData ''result'' = Some (JBool False) then
            Inl (Error
              (if truthy (get_property parsedData ''errorMessage'')
               then js_toString (the (get_property parsedData ''errorMessage''))
               else if truthy (get_property parsedData ''error'')
               then js_toString (the (get_property parsedData ''error''))
               else ''API request failed: '' @ int_text (status response)))
          else Inr (cleanTitlesInData parsedData))"

text \<open>
  \<^verbatim>\<open>
  private async request<T>(url: string, options = {}): Promise<T> {
    const fetchFn = (globalThis.fetch as unknown as typeof fetch) || fetch;
    const response = await fetchFn(url, { ...options, headers: this.headers });
    return this.handleResponse<T>(response as Response);
  }
  \<close>
\<close>

definition request :: "'s service \<Rightarrow> request \<Rightarrow> 's world \<Rightarrow> (error + json) \<times> 's world" where
  "request svc rq w =
     (case svc (remote w) rq of
        (answer, s') \<Rightarrow>
          (case answer of Inl e \<Rightarrow> Inl e | Inr response \<Rightarrow> handleResponse response,
           w\<lparr>remote := s', sent := sent w @ [rq]\<rparr>))"

text \<open>
  \<^verbatim>\<open>
  async getRaindrops(collectionId, params?) {
    return this.request(this.buildUrl(`/raindrops/${collectionId}`, params)); }
  async getRaindrop(id) {
    return this.request(this.buildUrl(`/raindrop/${id}`)); }
  async createRaindrop(data) {
    return this.request(this.buildUrl("/raindrop"), { method: "POST", body: JSON.stringify(data) }); }
  async updateRaindrop(id, data) {
    return this.request(this.buildUrl(`/raindrop/${id}`), { method: "PUT", body: JSON.stringify(data) }); }
  async emptyTrash() {
    return this.request(this.buildUrl(`/collection/${TRASH_COLLECTION_ID}`), { method: "DELETE" }); }
  \<close>
\<close>

definition getRaindrops_request :: "int \<Rightarrow> (string \<times> string) list \<Rightarrow> request" where
  "getRaindrops_request collectionId params =
     \<lparr>rq_method = GET, rq_url = API_BASE_URL @ ''/raindrops/'' @ int_text collectionId,
      rq_params = params, rq_body = None\<rparr>"

definition getRaindrop_request :: "int \<Rightarrow> request" where
  "getRaindrop_request raindropId =
     \<lparr>rq_method = GET, rq_url = API_BASE_URL @ ''/raindrop/'' @ int_text raindropId,
      rq_params = [], rq_body = None\<rparr>"

definition createRaindrop_request :: "json \<Rightarrow> request" where
  "createRaindrop_request data =
     \<lparr>rq_method = POST, rq_url = API_BASE_URL @ ''/raindrop'',
      rq_params = [], rq_body = Some data\<rparr>"

definition updateRaindrop_request :: "int \<Rightarrow> json \<Rightarrow> request" where
  "updateRaindrop_request raindropId data =
     \<lparr>rq_method = PUT, rq_url = API_BASE_URL @ ''/raindrop/'' @ int_text raindropId,
      rq_params = [], rq_body = Some data\<rparr>"

definition emptyTrash_request :: request where
  "emptyTrash_request =
     \<lparr>rq_method = DELETE,
      rq_url = API_BASE_URL @ ''/collection/'' @ int_text TRASH_COLLECTION_ID,
      rq_params = [], rq_body = None\<rparr>"

definition getRaindrops ::
  "'s service \<Rightarrow> int \<Rightarrow> (string \<times> string) list \<Rightarrow> 's world \<Rightarrow> (error + json) \<times> 's world" where
  "getRaindrops svc collectionId params = request svc (getRaindrops_request collectionId params)"

definition getRaindrop :: "'s service \<Rightarrow> int \<Rightarrow> 's world \<Rightarrow> (error + json) \<times> 's world" where
  "getRaindrop svc raindropId = request svc (getRaindrop_request raindropId)"

definition createRaindrop :: "'s service \<Rightarrow> json \<Rightarrow> 's world \<Rightarrow> (error + json) \<times> 's world" where
  "createRaindrop svc data = request svc (createRaindrop_request data)"

definition updateRaindrop ::
  "'s service \<Rightarrow> int \<Rightarrow> json \<Rightarrow> 's world \<Rightarrow> (error + json) \<times> 's world" where
  "updateRaindrop svc raindropId data = request svc (updateRaindrop_request raindropId data)"

definition emptyTrash :: "'s service \<Rightarrow> 's world \<Rightarrow> (error + json) \<times> 's world" where
  "emptyTrash svc = request svc emptyTrash_request"

section \<open>Highlights\<close>

text \<open>
  \<^verbatim>\<open>(raindrop.item.highlights as Highlight[]) || []\<close>: the read of \<^verbatim>\<open>highlights\<close> throws when
  \<^verbatim>\<open>raindrop.item\<close> is \<^verbatim>\<open>undefined\<close> or \<^verbatim>\<open>null\<close>; a falsy value gives the empty array.
\<close>

definition existingHighlights :: "json \<Rightarrow> error + json" where
  "existingHighlights raindrop =
     (if raindrop = JNull then Inl TypeError
      else case get_property raindrop ''item'' of
             None \<Rightarrow> Inl TypeError
           | Some item \<Rightarrow>
               if item = JNull then Inl TypeError
               else if truthy (get_property item ''highlights'')
               then Inr (the (get_property item ''highlights''))
               else Inr (JArr []))"

text \<open>
  An array method (\<^verbatim>\<open>findIndex\<close>, \<^verbatim>\<open>filter\<close>) called on a value, as the list of elements it
  runs over: only an array has the method.  An object that inherits it from an array
  installed as its prototype is outside the model, which treats it as any other value
  that is not an array.
\<close>

fun as_array :: "json \<Rightarrow> error + json list" where
  "as_array (JArr xs) = Inr xs"
| "as_array (JBuiltin ArrayPrototype) = Inr []"
| "as_array v = Inl TypeError"

text \<open>
  \<^verbatim>\<open>existingHighlights.findIndex(h => h._id === highlightId)\<close>, \<open>None\<close> for \<^verbatim>\<open>-1\<close>.  The
  callback throws on an element that is \<^verbatim>\<open>null\<close>.
\<close>

fun findIndex :: "string \<Rightarrow> json list \<Rightarrow> error + nat option" where
  "findIndex highlightId [] = Inr None"
| "findIndex highlightId (h # hs) =
     (if h = JNull then Inl TypeError
      else if get_property h ''_id'' = Some (JStr highlightId) then Inr (Some 0)
      else (case findIndex highlightId hs of
              Inl e \<Rightarrow> Inl e
            | Inr None \<Rightarrow> Inr None
            | Inr (Some i) \<Rightarrow> Inr (Some (Suc i))))"

text \<open>\<^verbatim>\<open>`Highlight with ID '${highlightId}' not found in raindrop ${raindropId}`\<close>\<close>

definition highlightNotFound :: "string \<Rightarrow> int \<Rightarrow> error" where
  "highlightNotFound highlightId raindropId =
     Error (''Highlight with ID '' @ [squote] @ highlightId @ [squote]
            @ '' not found in raindrop '' @ int_text raindropId)"

text \<open>\<^verbatim>\<open>updates: { text?: string; color?: string; note?: string }\<close>\<close>

record highlight_updates =
  upd_text :: "string option"
  upd_color :: "string option"
  upd_note :: "string option"

text \<open>\<^verbatim>\<open>if (updates.k !== undefined) {updatedHighlight.k = updates.k;}\<close>\<close>

definition assign_if_defined :: "string \<Rightarrow> string option \<Rightarrow> jrecord \<Rightarrow> jrecord" where
  "assign_if_defined k v obj = (case v of None \<Rightarrow> obj | Some x \<Rightarrow> AList.update k (JStr x) obj)"

text \<open>
  \<^verbatim>\<open>
  async updateHighlight(raindropId, highlightId, updates) {
    const raindrop = await this.getRaindrop(raindropId);
    const existingHighlights = (raindrop.item.highlights as Highlight[]) || [];
    const highlightIndex = existingHighlights.findIndex(h => h._id === highlightId);
    if (highlightIndex === -1) {
      throw new Error(`Highlight with ID '${highlightId}' not found in raindrop ${raindropId}`);
    }
    const updatedHighlight = { ...existingHighlights[highlightIndex] };
    if (updates.text !== undefined) {updatedHighlight.text = updates.text;}
    if (updates.color !== undefined) {updatedHighlight.color = updates.color;}
    if (updates.note !== undefined) {updatedHighlight.note = updates.note;}
    const updatedHighlights = [...existingHighlights];
    updatedHighlights[highlightIndex] = updatedHighlight;
    return this.updateRaindrop(raindropId, { highlights: updatedHighlights });
  }
  \<close>
\<close>

definition updateHighlight ::
  "'s service \<Rightarrow> int \<Rightarrow> string \<Rightarrow> highlight_updates \<Rightarrow> 's world \<Rightarrow> (error + json) \<times> 's world" where
  "updateHighlight svc raindropId highlightId updates w =
     (case getRaindrop svc raindropId w of
        (Inl e, w1) \<Rightarrow> (Inl e, w1)
      | (Inr raindrop, w1) \<Rightarrow>
          (case existingHighlights raindrop of
             Inl e \<Rightarrow> (Inl e, w1)
           | Inr existing \<Rightarrow>
               (case as_array existing of
                  Inl e \<Rightarrow> (Inl e, w1)
                | Inr hs \<Rightarrow>
                    (case findIndex highlightId hs of
                       Inl e \<Rightarrow> (Inl e, w1)
                     | Inr None \<Rightarrow> (Inl (highlightNotFound highlightId raindropId), w1)
                     | Inr (Some highlightIndex) \<Rightarrow>
                         let updatedHighlight =
                               assign_if_defined ''note'' (upd_note updates)
                                 (assign_if_defined ''color'' (upd_color updates)
                                   (assign_if_defined ''text'' (upd_text updates)
                                     (spread (hs ! highlightIndex))));
                             updatedHighlights = hs[highlightIndex := JObj updatedHighlight]
                         in updateRaindrop svc raindropId
                              (JObj [(''highlights'', JArr updatedHighlights)]) w1))))"

text \<open>
  \<^verbatim>\<open>
  async deleteHighlight(raindropId, highlightId) {
    const raindrop = await this.getRaindrop(raindropId);
    const existingHighlights = (raindrop.item.highlights as Highlight[]) || [];
    // Find the highlight - Raindrop.io deletes by setting text to empty string
    const highlightIndex = existingHighlights.findIndex(h => h._id === highlightId);
    if (highlightIndex === -1) {
      throw new Error(`Highlight with ID '${highlightId}' not found in raindrop ${raindropId}`);
    }
    // Set text to empty to trigger deletion
    const updatedHighlights = [...existingHighlights];
    updatedHighlights[highlightIndex] = { ...updatedHighlights[highlightIndex], text: "" };
    return this.updateRaindrop(raindropId, { highlights: updatedHighlights });
  }
  \<close>
\<close>

definition deleteHighlight ::
  "'s service \<Rightarrow> int \<Rightarrow> string \<Rightarrow> 's world \<Rightarrow> (error + json) \<times> 's world" where
  "deleteHighlight svc raindropId highlightId w =
     (case getRaindrop svc raindropId w of
        (Inl e, w1) \<Rightarrow> (Inl e, w1)
      | (Inr raindrop, w1) \<Rightarrow>
          (case existingHighlights raindrop of
             Inl e \<Rightarrow> (Inl e, w1)
           | Inr existing \<Rightarrow>
               (case as_array existing of
                  Inl e \<Rightarrow> (Inl e, w1)
                | Inr hs \<Rightarrow>
                    (case findIndex highlightId hs of
                       Inl e \<Rightarrow> (Inl e, w1)
                     | Inr None \<Rightarrow> (Inl (highlightNotFound highlightId raindropId), w1)
                     | Inr (Some highlightIndex) \<Rightarrow>
                         let updatedHighlights =
                               hs[highlightIndex :=
                                    JObj (AList.update ''text'' (JStr []) (spread (hs ! highlightIndex)))]
                         in updateRaindrop svc raindropId
                              (JObj [(''highlights'', JArr updatedHighlights)]) w1))))"

section \<open>Watching a collection\<close>

text \<open>\<^verbatim>\<open>interface WatchResult { collectionId; since; until; newItems; count }\<close>\<close>

record watch_result =
  wr_collectionId :: int
  wr_since :: string
  wr_until :: string
  wr_newItems :: "json list"
  wr_count :: nat

text \<open>
  The \<^verbatim>\<open>Date\<close> constructor is a parameter \<open>newDate\<close> of the model: it gives the time value
  of its argument in milliseconds, \<open>None\<close> for an invalid date.  The filter callback
  \<^verbatim>\<open>
  item => {
    const created = item.created ? new Date(item.created) : null;
    return created && created > sinceDate;
  }
  \<close>
  reads a property of \<open>item\<close>, which throws on \<^verbatim>\<open>null\<close>; a comparison with an invalid date
  is false.
\<close>

definition createdAfter :: "(json \<Rightarrow> int option) \<Rightarrow> int option \<Rightarrow> json \<Rightarrow> error + bool" where
  "createdAfter newDate sinceDate item =
     (if item = JNull then Inl TypeError
      else if truthy (get_property item ''created'') then
        (case (newDate (the (get_property item ''created'')), sinceDate) of
           (Some created, Some since_ms) \<Rightarrow> Inr (since_ms < created)
         | _ \<Rightarrow> Inr False)
      else Inr False)"

text \<open>\<^verbatim>\<open>xs.filter(p)\<close> where \<open>p\<close> may throw.\<close>

fun filter_throwing :: "('a \<Rightarrow> error + bool) \<Rightarrow> 'a list \<Rightarrow> error + 'a list" where
  "filter_throwing p [] = Inr []"
| "filter_throwing p (x # xs) =
     (case p x of
        Inl e \<Rightarrow> Inl e
      | Inr b \<Rightarrow>
          (case filter_throwing p xs of
             Inl e \<Rightarrow> Inl e
           | Inr ys \<Rightarrow> Inr (if b then x # ys else ys)))"

text \<open>\<^verbatim>\<open>result.items\<close>, on which \<^verbatim>\<open>filter\<close> is then called.\<close>

definition result_items :: "json \<Rightarrow> error + json list" where
  "result_items result =
     (if result = JNull then Inl TypeError
      else case get_property result ''items'' of
             None \<Rightarrow> Inl TypeError
           | Some v \<Rightarrow> as_array v)"

text \<open>
  \<^verbatim>\<open>
  async watchCollection(collectionId, since?, resetWatch?) {
    const now = new Date().toISOString();
    let checkSince: string;
    if (resetWatch) {
      // Reset watch - just update timestamp and return empty
      watchTimestamps.set(collectionId, now);
      return { collectionId, since: now, until: now, newItems: [], count: 0 };
    } else if (since) {
      // Use provided timestamp
      checkSince = since;
    } else {
      // Use stored timestamp or default to now (first watch returns nothing)
      checkSince = watchTimestamps.get(collectionId) || now;
    }
    // Fetch recent items sorted by creation date (newest first)
    const result = await this.getRaindrops(collectionId, { sort: "-created", perpage: 50 });
    // Filter to items created after checkSince
    const sinceDate = new Date(checkSince);
    const newItems = result.items.filter(item => ...);
    // Update stored timestamp
    watchTimestamps.set(collectionId, now);
    return { collectionId, since: checkSince, until: now, newItems, count: newItems.length };
  }
  \<close>
  \<open>now\<close> is the clock reading \<^verbatim>\<open>new Date().toISOString()\<close> taken when the call starts.
\<close>

definition checkSince_of :: "'s world \<Rightarrow> string \<Rightarrow> int \<Rightarrow> string option \<Rightarrow> string" where
  "checkSince_of w now collectionId since =
     (if since \<noteq> None \<and> the since \<noteq> [] then the since
      else case watchTimestamps w collectionId of
             None \<Rightarrow> now
           | Some stored \<Rightarrow> if stored \<noteq> [] then stored else now)"

definition watchCollection ::
  "'s service \<Rightarrow> (json \<Rightarrow> int option) \<Rightarrow> string \<Rightarrow> int \<Rightarrow> string option \<Rightarrow> bool option \<Rightarrow>
   's world \<Rightarrow> (error + watch_result) \<times> 's world" where
  "watchCollection svc newDate now collectionId since resetWatch w =
     (if resetWatch = Some True then
        (Inr \<lparr>wr_collectionId = collectionId, wr_since = now, wr_until = now,
              wr_newItems = [], wr_count = 0\<rparr>,
         w\<lparr>watchTimestamps := (watchTimestamps w)(collectionId \<mapsto> now)\<rparr>)
      else
        let checkSince = checkSince_of w now collectionId since in
        (case getRaindrops svc collectionId [(''sort'', ''-created''), (''perpage'', ''50'')] w of
           (Inl e, w1) \<Rightarrow> (Inl e, w1)
         | (Inr result, w1) \<Rightarrow>
             let sinceDate = newDate (JStr checkSince) in
             (case result_items result of
                Inl e \<Rightarrow> (Inl e, w1)
              | Inr items \<Rightarrow>
                  (case filter_throwing (createdAfter newDate sinceDate) items of
                     Inl e \<Rightarrow> (Inl e, w1)
                   | Inr newItems \<Rightarrow>
                       (Inr \<lparr>wr_collectionId = collectionId, wr_since = checkSince,
                             wr_until = now, wr_newItems = newItems,
                             wr_count = length newItems\<rparr>,
                        w1\<lparr>watchTimestamps := (watchTimestamps w1)(collectionId \<mapsto> now)\<rparr>)))))"

section \<open>Tool responses\<close>

text \<open>
  \<^verbatim>\<open>interface ToolResponse { content: Array<{ type: "text"; text: string }>; isError?: boolean }\<close>.
  Every response of the program has one content element.  Its text is either a literal
  string or \<^verbatim>\<open>JSON.stringify(data, null, 2)\<close>, kept as the value \<open>data\<close> it prints.
\<close>

datatype tool_text = Literal string | Stringified json

record tool_response =
  content :: tool_text
  isError :: bool

definition createSuccessResponse :: "string \<Rightarrow> tool_response" where
  "createSuccessResponse t = \<lparr>content = Literal t, isError = False\<rparr>"

definition createJsonResponse :: "json \<Rightarrow> tool_response" where
  "createJsonResponse data = \<lparr>content = Stringified data, isError = False\<rparr>"

text \<open>
  \<^verbatim>\<open>
  function createErrorResponse(error: unknown): ToolResponse {
    const message = error instanceof Error ? error.message : String(error);
    return { content: [{ type: "text", text: `Error: ${message}` }], isError: true };
  }
  \<close>
\<close>

definition createErrorResponse :: "error \<Rightarrow> tool_response" where
  "createErrorResponse e = \<lparr>content = Literal (''Error: '' @ message e), isError = True\<rparr>"

text \<open>
  \<^verbatim>\<open>
  function toolHandler<T>(handler: (params: T) => Promise<ToolResponse>) {
    return async (params: T): Promise<ToolResponse> => {
      try { return await handler(params); }
      catch (error) { return createErrorResponse(error); }
    };
  }
  \<close>
\<close>

definition toolHandler ::
  "('p \<Rightarrow> 's world \<Rightarrow> (error + tool_response) \<times> 's world) \<Rightarrow>
   'p \<Rightarrow> 's world \<Rightarrow> tool_response \<times> 's world" where
  "toolHandler handler params w =
     (case handler params w of
        (Inl e, w') \<Rightarrow> (createErrorResponse e, w')
      | (Inr response, w') \<Rightarrow> (response, w'))"

section \<open>Emptying the trash\<close>

text \<open>
  \<^verbatim>\<open>
  toolHandler<EmptyTrashParams>(async ({ confirm }) => {
    if (!confirm) {
      throw new Error("You must set confirm=true to empty the trash. This action is irreversible.");
    }
    await client.emptyTrash();
    return createSuccessResponse("Trash emptied successfully. All items have been permanently deleted.");
  })
  \<close>
  The parameter is declared \<^verbatim>\<open>confirm: true\<close> (schema \<^verbatim>\<open>z.literal(true)\<close>); the guard
  \<^verbatim>\<open>!confirm\<close> is for a flag that is \<^verbatim>\<open>false\<close> or absent (\<open>None\<close>).
\<close>

definition confirmRequired :: error where
  "confirmRequired =
     Error ''You must set confirm=true to empty the trash. This action is irreversible.''"

definition emptyTrash_handler ::
  "'s service \<Rightarrow> bool option \<Rightarrow> 's world \<Rightarrow> (error + tool_response) \<times> 's world" where
  "emptyTrash_handler svc confirm w =
     (if confirm \<noteq> Some True then (Inl confirmRequired, w)
      else (case emptyTrash svc w of
              (Inl e, w') \<Rightarrow> (Inl e, w')
            | (Inr r, w') \<Rightarrow>
                (Inr (createSuccessResponse
                   ''Trash emptied successfully. All items have been permanently deleted.''), w')))"

definition emptyTrash_tool :: "'s service \<Rightarrow> bool option \<Rightarrow> 's world \<Rightarrow> tool_response \<times> 's world" where
  "emptyTrash_tool svc = toolHandler (emptyTrash_handler svc)"

section \<open>Bulk creation\<close>

text \<open>One element of the \<^verbatim>\<open>raindrops\<close> parameter of \<^verbatim>\<open>CreateRaindropsBulkParams\<close>.\<close>

record raindrop_input =
  r_link :: string
  r_title :: "string option"
  r_excerpt :: "string option"
  r_note :: "string option"
  r_tags :: "string list option"
  r_collectionId :: "int option"
  r_important :: "bool option"
  r_pleaseParse :: "bool option"

text \<open>
  \<^verbatim>\<open>
  const data = { link: raindrop.link };
  if (raindrop.title) {data.title = raindrop.title;}
  if (raindrop.excerpt) {data.excerpt = raindrop.excerpt;}
  if (raindrop.note) {data.note = raindrop.note;}
  if (raindrop.tags) {data.tags = raindrop.tags;}
  if (raindrop.collectionId !== undefined) {data.collection = { $id: raindrop.collectionId };}
  if (raindrop.important !== undefined) {data.important = raindrop.important;}
  if (raindrop.pleaseParse) {data.pleaseParse = {};}
  \<close>
\<close>

definition string_entry :: "string \<Rightarrow> string option \<Rightarrow> jrecord" where
  "string_entry k v = (case v of None \<Rightarrow> [] | Some x \<Rightarrow> if x \<noteq> [] then [(k, JStr x)] else [])"

definition raindrop_data :: "raindrop_input \<Rightarrow> json" where
  "raindrop_data raindrop =
     JObj ([(''link'', JStr (r_link raindrop))]
       @ string_entry ''title'' (r_title raindrop)
       @ string_entry ''excerpt'' (r_excerpt raindrop)
       @ string_entry ''note'' (r_note raindrop)
       @ (case r_tags raindrop of None \<Rightarrow> [] | Some ts \<Rightarrow> [(''tags'', JArr (map JStr ts))])
       @ (case r_collectionId raindrop of
            None \<Rightarrow> []
          | Some c \<Rightarrow> [(''collection'', JObj [(''$id'', JNum c)])])
       @ (case r_important raindrop of None \<Rightarrow> [] | Some b \<Rightarrow> [(''important'', JBool b)])
       @ (if r_pleaseParse raindrop = Some True then [(''pleaseParse'', JObj [])] else []))"

text \<open>
  \<^verbatim>\<open>
  const results = { total: raindrops.length, successful: 0, failed: 0,
                    created: [] as Raindrop[],
                    errors: [] as Array<{ index: number; link: string; error: string }> };
  \<close>
  An element of \<open>created\<close> is \<open>None\<close> when \<^verbatim>\<open>result.item\<close> was \<^verbatim>\<open>undefined\<close>.
\<close>

record bulk_error =
  be_index :: nat
  be_link :: string
  be_error :: string

record bulk_results =
  total :: nat
  successful :: nat
  failed :: nat
  created :: "json option list"
  errors :: "bulk_error list"

text \<open>
  \<^verbatim>\<open>
  for (let i = 0; i < raindrops.length; i++) {
    const raindrop = raindrops[i];
    try {
      // Add delay between requests (except for the first one)
      if (i > 0 && delayMs > 0) { await delay(delayMs); }
      const data = ...;
      const result = await client.createRaindrop(data);
      results.successful++;
      results.created.push(result.item);
    } catch (error) {
      results.failed++;
      const errorMessage = error instanceof Error ? error.message : String(error);
      results.errors.push({ index: i, link: raindrop.link, error: errorMessage });
      if (!continueOnError) {
        // Stop processing on first error if continueOnError is false
        break;
      }
    }
  }
  \<close>
  The loop runs over the items still to be processed, \<open>i\<close> being the index of the first
  of them.  Waiting changes nothing in the state, so \<^verbatim>\<open>delay\<close> does not appear.  The read
  \<^verbatim>\<open>result.item\<close> comes after the increment and throws when \<open>result\<close> is \<^verbatim>\<open>null\<close>.
\<close>

definition record_failure :: "nat \<Rightarrow> raindrop_input \<Rightarrow> error \<Rightarrow> bulk_results \<Rightarrow> bulk_results" where
  "record_failure i raindrop e results =
     results\<lparr>failed := failed results + 1,
             errors := errors results
                       @ [\<lparr>be_index = i, be_link = r_link raindrop, be_error = message e\<rparr>]\<rparr>"

fun bulk_loop ::
  "'s service \<Rightarrow> bool \<Rightarrow> nat \<Rightarrow> raindrop_input list \<Rightarrow> bulk_results \<Rightarrow> 's world \<Rightarrow>
   bulk_results \<times> 's world" where
  "bulk_loop svc continueOnError i [] results w = (results, w)"
| "bulk_loop svc continueOnError i (raindrop # rest) results w =
     (case createRaindrop svc (raindrop_data raindrop) w of
        (Inr result, w') \<Rightarrow>
          if result = JNull then
            (let results' = record_failure i raindrop TypeError
                              (results\<lparr>successful := successful results + 1\<rparr>)
             in if \<not> continueOnError then (results', w')
                else bulk_loop svc continueOnError (Suc i) rest results' w')
          else
            bulk_loop svc continueOnError (Suc i) rest
              (results\<lparr>successful := successful results + 1,
                       created := created results @ [get_property result ''item'']\<rparr>) w'
      | (Inl e, w') \<Rightarrow>
          (let results' = record_failure i raindrop e results
           in if \<not> continueOnError then (results', w')
              else bulk_loop svc continueOnError (Suc i) rest results' w'))"

text \<open>
  \<^verbatim>\<open>
  if (minimal) {
    return createJsonResponse({ success: results.failed === 0, created: results.successful,
                                failed: results.failed, total: results.total });
  }
  return createJsonResponse({
    success: results.failed === 0,
    summary: { total: results.total, successful: results.successful, failed: results.failed },
    created: results.created,
    errors: results.errors.length > 0 ? results.errors : undefined
  });
  \<close>
  \<^verbatim>\<open>JSON.stringify\<close> prints an \<^verbatim>\<open>undefined\<close> array element as \<^verbatim>\<open>null\<close> and leaves out a key whose
  value is \<^verbatim>\<open>undefined\<close>.
\<close>

definition bulk_error_json :: "bulk_error \<Rightarrow> json" where
  "bulk_error_json e =
     JObj [(''index'', JNum (int (be_index e))), (''link'', JStr (be_link e)),
           (''error'', JStr (be_error e))]"

definition bulk_response :: "bool \<Rightarrow> bulk_results \<Rightarrow> json" where
  "bulk_response minimal results =
     (if minimal then
        JObj [(''success'', JBool (failed results = 0)),
              (''created'', JNum (int (successful results))),
              (''failed'', JNum (int (failed results))),
              (''total'', JNum (int (total results)))]
      else
        JObj ([(''success'', JBool (failed results = 0)),
               (''summary'', JObj [(''total'', JNum (int (total results))),
                                   (''successful'', JNum (int (successful results))),
                                   (''failed'', JNum (int (failed results)))]),
               (''created'', JArr (map (\<lambda>c. case c of None \<Rightarrow> JNull | Some v \<Rightarrow> v)
                                      (created results)))]
              @ (if errors results \<noteq> []
                 then [(''errors'', JArr (map bulk_error_json (errors results)))] else [])))"

record bulk_params =
  raindrops :: "raindrop_input list"
  continueOnError :: bool
  minimal :: bool

definition bulk_run :: "'s service \<Rightarrow> bulk_params \<Rightarrow> 's world \<Rightarrow> bulk_results \<times> 's world" where
  "bulk_run svc params w =
     bulk_loop svc (continueOnError params) 0 (raindrops params)
       \<lparr>total = length (raindrops params), successful = 0, failed = 0,
        created = [], errors = []\<rparr> w"

definition createRaindropsBulk_handler ::
  "'s service \<Rightarrow> bulk_params \<Rightarrow> 's world \<Rightarrow> (error + tool_response) \<times> 's world" where
  "createRaindropsBulk_handler svc params w =
     (case bulk_run svc params w of
        (results, w') \<Rightarrow> (Inr (createJsonResponse (bulk_response (minimal params) results)), w'))"

definition createRaindropsBulk_tool ::
  "'s service \<Rightarrow> bulk_params \<Rightarrow> 's world \<Rightarrow> tool_response \<times> 's world" where
  "createRaindropsBulk_tool svc = toolHandler (createRaindropsBulk_handler svc)"

text \<open>
  \<open>creates_all svc items w\<close>: the state reached when the create call of every item of
  the list, made in order from \<open>w\<close>, succeeds; \<open>None\<close> when one of them fails.
\<close>

fun creates_all :: "'s service \<Rightarrow> raindrop_input list \<Rightarrow> 's world \<Rightarrow> 's world option" where
  "creates_all svc [] w = Some w"
| "creates_all svc (raindrop # rest) w =
     (case createRaindrop svc (raindrop_data raindrop) w of
        (Inr result, w') \<Rightarrow> creates_all svc rest w'
      | (Inl e, w') \<Rightarrow> None)"

section \<open>Concrete runs\<close>

text \<open>
  A service that plays a script: its state is the list of answers still to give, one per
  request; \<^verbatim>\<open>fetch\<close> rejects once the script is over.
\<close>

definition scripted :: "(error + http_response) list service" where
  "scripted script rq =
     (case script of
        [] \<Rightarrow> (Inl (Error ''fetch failed''), [])
      | answer # rest \<Rightarrow> (answer, rest))"

definition ok_response :: "json \<Rightarrow> error + http_response" where
  "ok_response data = Inr \<lparr>ok = True, status = 200, statusText = ''OK'', json_body = Some data\<rparr>"

definition failed_response :: "int \<Rightarrow> json \<Rightarrow> error + http_response" where
  "failed_response code data =
     Inr \<lparr>ok = False, status = code, statusText = ''Error'', json_body = Some data\<rparr>"

definition start :: "'s \<Rightarrow> 's world" where
  "start s = \<lparr>remote = s, sent = [], watchTimestamps = Map.empty\<rparr>"

text \<open>
  The time value of a timestamp in the format \<^verbatim>\<open>toISOString\<close> prints,
  \<^verbatim>\<open>YYYY-MM-DDTHH:mm:ss.sssZ\<close>: milliseconds since 1970-01-01T00:00:00.000Z.  It stands for
  the \<^verbatim>\<open>Date\<close> constructor in concrete runs, on timestamps of that format.
\<close>

definition decimal :: "string \<Rightarrow> int option" where
  "decimal s =
     (if s \<noteq> [] \<and> list_all (\<lambda>c. 48 \<le> (of_char c :: nat) \<and> (of_char c :: nat) \<le> 57) s
      then Some (foldl (\<lambda>n c. 10 * n + (int (of_char c) - 48)) 0 s)
      else None)"

definition days_from_civil :: "int \<Rightarrow> int \<Rightarrow> int \<Rightarrow> int" where
  "days_from_civil y m d =
     (let y' = (if m \<le> 2 then y - 1 else y);
          era = y' div 400;
          yoe = y' - era * 400;
          doy = (153 * (if 2 < m then m - 3 else m + 9) + 2) div 5 + d - 1;
          doe = yoe * 365 + yoe div 4 - yoe div 100 + doy
      in era * 146097 + doe - 719468)"

definition isoTimeValue :: "json \<Rightarrow> int option" where
  "isoTimeValue v =
     (case v of
        JStr s \<Rightarrow>
          if length s = 24 \<and> s ! 4 = CHR ''-'' \<and> s ! 7 = CHR ''-'' \<and> s ! 10 = CHR ''T'' \<and>
             s ! 13 = CHR '':'' \<and> s ! 16 = CHR '':'' \<and> s ! 19 = CHR ''.'' \<and> s ! 23 = CHR ''Z''
          then
            (case (decimal (take 4 s), decimal (take 2 (drop 5 s)), decimal (take 2 (drop 8 s)),
                   decimal (take 2 (drop 11 s)), decimal (take 2 (drop 14 s)),
                   decimal (take 2 (drop 17 s)), decimal (take 3 (drop 20 s))) of
               (Some y, Some m, Some d, Some h, Some mi, Some sec, Some ms) \<Rightarrow>
                 if 1 \<le> m \<and> m \<le> 12 \<and> 1 \<le> d \<and> d \<le> 31 \<and> h \<le> 23 \<and> mi \<le> 59 \<and> sec \<le> 59
                 then Some ((((days_from_civil y m d * 24 + h) * 60 + mi) * 60 + sec) * 1000 + ms)
                 else None
             | _ \<Rightarrow> None)
          else None
      | _ \<Rightarrow> None)"

text \<open>Five items to create, and a script in which the second create call is refused.\<close>

definition link_only :: "string \<Rightarrow> raindrop_input" where
  "link_only l = \<lparr>r_link = l, r_title = None, r_excerpt = None, r_note = None, r_tags = None,
                  r_collectionId = None, r_important = None, r_pleaseParse = Some True\<rparr>"

definition five_items :: "raindrop_input list" where
  "five_items = [link_only ''a'', link_only ''b'', link_only ''c'', link_only ''d'', link_only ''e'']"

definition second_fails :: "(error + http_response) list" where
  "second_fails =
     [ok_response (JObj [(''result'', JBool True), (''item'', JObj [(''_id'', JNum 1)])]),
      failed_response 400 (JObj [(''result'', JBool False), (''errorMessage'', JStr ''Invalid link'')]),
      ok_response (JObj [(''result'', JBool True), (''item'', JObj [(''_id'', JNum 2)])])]"

section \<open>Properties of the response normalizer\<close>

lemma length_trim: "length (trim s) \<le> length s"
  unfolding trim_def
  by (metis length_dropWhile_le length_rev order_trans)

lemma cleanTitle_enclosed:
  "enclosed (trim s) \<Longrightarrow> cleanTitle s = slice_1_m1 (trim s)"
  by (simp add: cleanTitle_def enclosed_def)

lemma cleanTitle_not_enclosed:
  "\<not> enclosed (trim s) \<Longrightarrow> cleanTitle s = trim s"
  by (auto simp: cleanTitle_def enclosed_def Let_def)

lemma length_slice: "s \<noteq> [] \<Longrightarrow> length (slice_1_m1 s) < length s"
  by (cases s) (simp_all add: slice_1_m1_def)

lemma enclosed_nonempty: "enclosed s \<Longrightarrow> s \<noteq> []"
  by (auto simp: enclosed_def startsWith_def)

lemma cleanTitle_fixed_iff: "cleanTitle s = s \<longleftrightarrow> settled s"
proof
  assume fixed: "cleanTitle s = s"
  show "settled s"
  proof (cases "enclosed (trim s)")
    case True
    then have "length (cleanTitle s) < length (trim s)"
      by (simp add: cleanTitle_enclosed length_slice enclosed_nonempty)
    with length_trim [of s] fixed show ?thesis by simp
  next
    case False
    with fixed have "trim s = s" by (simp add: cleanTitle_not_enclosed)
    with False show ?thesis by (simp add: settled_def)
  qed
next
  assume "settled s"
  then show "cleanTitle s = s"
    by (simp add: settled_def cleanTitle_not_enclosed)
qed

lemma object_of_assignments_kind [simp]:
  "is_object (object_of_assignments es)"
  "\<not> is_string (object_of_assignments es)"
  "object_of_assignments es \<noteq> JNull"
  by (simp_all add: object_of_assignments_def set_prototype_def object_with_def Let_def
      split: option.splits)

lemma object_of_assignments_plain:
  "\<forall>(key, v) \<in> set es. key \<noteq> ''__proto__'' \<Longrightarrow> object_of_assignments es = JObj es"
proof -
  assume keys: "\<forall>(key, v) \<in> set es. key \<noteq> ''__proto__''"
  then have "map_of es ''__proto__'' = None"
    by (auto simp: map_of_eq_None_iff)
  moreover from keys have "filter (\<lambda>(key, v). key \<noteq> ''__proto__'') es = es"
    by (auto simp: filter_id_conv)
  ultimately show ?thesis by (simp add: object_of_assignments_def)
qed

lemma is_object_clean [simp]: "is_object (cleanTitlesInData v) = is_object v"
proof (cases v)
  case (JBuiltin b)
  then show ?thesis by (cases b) simp_all
qed simp_all

lemma is_string_clean [simp]: "is_string (cleanTitlesInData v) = is_string v"
proof (cases v)
  case (JBuiltin b)
  then show ?thesis by (cases b) simp_all
qed simp_all

lemma title_frame_prim: "\<not> is_object v \<Longrightarrow> title_frame v v"
  by (cases v) simp_all

lemma clean_not_null: "v \<noteq> JNull \<Longrightarrow> cleanTitlesInData v \<noteq> JNull"
proof (cases v)
  case (JBuiltin b)
  then show ?thesis by (cases b) simp_all
qed simp_all

text \<open>
  On an object without the key \<^verbatim>\<open>__proto__\<close> the normalizer maps the entries one by one.
\<close>

lemma clean_entries_keys:
  "map fst (map (\<lambda>(key, v).
        (key, if key = ''title'' \<and> is_string v then JStr (cleanTitle (the_string v))
              else if is_object v then cleanTitlesInData v
              else v)) kvs) = map fst kvs"
  by (induction kvs) auto

lemma clean_entries_plain:
  assumes "\<forall>(key, v) \<in> set kvs. key \<noteq> ''__proto__''"
  shows "object_of_assignments (map (\<lambda>(key, v).
        (key, if key = ''title'' \<and> is_string v then JStr (cleanTitle (the_string v))
              else if is_object v then cleanTitlesInData v
              else v)) kvs)
       = JObj (map (\<lambda>(key, v).
        (key, if key = ''title'' \<and> is_string v then JStr (cleanTitle (the_string v))
              else if is_object v then cleanTitlesInData v
              else v)) kvs)"
  using assms by (intro object_of_assignments_plain) auto

lemma entries_idempotent_iff:
  assumes keys: "\<forall>(key, v) \<in> set kvs. key \<noteq> ''__proto__''"
      and IH: "\<And>key v. (key, v) \<in> set kvs \<Longrightarrow> \<not> (key = ''title'' \<and> is_string v) \<Longrightarrow> is_object v \<Longrightarrow>
                 (cleanTitlesInData (cleanTitlesInData v) = cleanTitlesInData v)
                   = all_titles (\<lambda>t. settled (cleanTitle t)) v"
  shows "(cleanTitlesInData (JObj (map (\<lambda>(key, v).
        (key, if key = ''title'' \<and> is_string v then JStr (cleanTitle (the_string v))
              else if is_object v then cleanTitlesInData v
              else v)) kvs))
       = JObj (map (\<lambda>(key, v).
        (key, if key = ''title'' \<and> is_string v then JStr (cleanTitle (the_string v))
              else if is_object v then cleanTitlesInData v
              else v)) kvs))
     = list_all (\<lambda>(key, v).
        if key = ''title'' \<and> is_string v then settled (cleanTitle (the_string v))
        else if is_object v then all_titles (\<lambda>t. settled (cleanTitle t)) v
        else True) kvs"
proof -
  let ?f = "\<lambda>(key, v).
        (key, if key = ''title'' \<and> is_string v then JStr (cleanTitle (the_string v))
              else if is_object v then cleanTitlesInData v
              else v)"
  have keys': "\<forall>(key, v) \<in> set (map ?f kvs). key \<noteq> ''__proto__''"
    using keys by auto
  have "cleanTitlesInData (JObj (map ?f kvs)) = JObj (map ?f (map ?f kvs))"
    using clean_entries_plain [OF keys'] by simp
  then have "(cleanTitlesInData (JObj (map ?f kvs)) = JObj (map ?f kvs))
      = (\<forall>(key, v) \<in> set kvs.
               if key = ''title'' \<and> is_string v then settled (cleanTitle (the_string v))
               else if is_object v then cleanTitlesInData (cleanTitlesInData v) = cleanTitlesInData v
               else True)"
    by (auto simp: cleanTitle_fixed_iff split: if_splits)
  also have "\<dots> = list_all (\<lambda>(key, v).
        if key = ''title'' \<and> is_string v then settled (cleanTitle (the_string v))
        else if is_object v then all_titles (\<lambda>t. settled (cleanTitle t)) v
        else True) kvs"
    using IH by (auto simp: list_all_iff split: if_splits)
  finally show ?thesis .
qed

text \<open>
  Claim C1, as stated: title normalization is idempotent on every JSON value.  It is not.
  \<open>cleanTitle\<close> strips one layer of quotes and does not trim again, so a title quoted twice
  loses its second layer only on the second pass: \<^verbatim>\<open>{"title": "\"\"a\"\""}\<close> becomes
  \<^verbatim>\<open>{"title": "\"a\""}\<close> and then \<^verbatim>\<open>{"title": "a"}\<close>.
\<close>

theorem cleanTitlesInData_idempotent_counterexample:
  "cleanTitlesInData (cleanTitlesInData
      (JObj [(''title'', JStr [dquote, dquote, CHR ''a'', dquote, dquote])]))
   \<noteq> cleanTitlesInData (JObj [(''title'', JStr [dquote, dquote, CHR ''a'', dquote, dquote])])"
  by (simp add: cleanTitle_def trim_def is_ws_def startsWith_def endsWith_def slice_1_m1_def
      dquote_def squote_def object_of_assignments_def)

text \<open>
  Claim C1, amended: for every JSON value in which no object has a key \<^verbatim>\<open>__proto__\<close>,
  normalizing twice gives the same result as normalizing once exactly when every string
  under a key \<^verbatim>\<open>title\<close>, once cleaned (trimmed, then without its first and last character
  if the trimmed string starts and ends with the same quote character), has no white
  space left to trim and does not start and end with the same quote character.  A
  string that is a single quote character starts and ends with it.
\<close>

theorem cleanTitlesInData_idempotent_iff:
  assumes "no_proto_key x"
  shows "cleanTitlesInData (cleanTitlesInData x) = cleanTitlesInData x
     \<longleftrightarrow> all_titles (\<lambda>t. settled (cleanTitle t)) x"
  using assms
proof (induction x rule: cleanTitlesInData.induct)
  case (1 xs)
  then show ?case by (auto simp: list_all_iff)
next
  case (2 kvs)
  from "2.prems" have keys: "\<forall>(key, v) \<in> set kvs. key \<noteq> ''__proto__''"
    by (auto simp: list_all_iff)
  have IH: "(cleanTitlesInData (cleanTitlesInData v) = cleanTitlesInData v)
              = all_titles (\<lambda>t. settled (cleanTitle t)) v"
    if "(key, v) \<in> set kvs" "\<not> (key = ''title'' \<and> is_string v)" "is_object v" for key v
    using "2.IH" [OF that(1) refl that(2,3)] "2.prems" that(1,3)
    by (auto simp: list_all_iff)
  show ?case
    using entries_idempotent_iff [OF keys IH] clean_entries_plain [OF keys]
    by simp
next
  case (3 p kvs)
  from "3.prems" have keys: "\<forall>(key, v) \<in> set kvs. key \<noteq> ''__proto__''"
    by (auto simp: list_all_iff)
  have IH: "(cleanTitlesInData (cleanTitlesInData v) = cleanTitlesInData v)
              = all_titles (\<lambda>t. settled (cleanTitle t)) v"
    if "(key, v) \<in> set kvs" "\<not> (key = ''title'' \<and> is_string v)" "is_object v" for key v
    using "3.IH" [OF that(1) refl that(2,3)] "3.prems" that(1,3)
    by (auto simp: list_all_iff)
  show ?case
    using entries_idempotent_iff [OF keys IH] clean_entries_plain [OF keys]
    by simp
qed (simp_all add: object_of_assignments_def)

text \<open>
  The title \<^verbatim>\<open>"Hello World" \<close> (quoted once, followed by a space) is cleaned to
  \<^verbatim>\<open>Hello World\<close>, which is settled; a second pass changes nothing.
\<close>

theorem cleanTitlesInData_idempotent_witness:
  "no_proto_key
     (JObj [(''_id'', JNum 1), (''title'', JStr (dquote # ''Hello World'' @ [dquote, CHR '' '']))])
   \<and> all_titles (\<lambda>t. settled (cleanTitle t))
     (JObj [(''_id'', JNum 1), (''title'', JStr (dquote # ''Hello World'' @ [dquote, CHR '' '']))])
   \<and> cleanTitlesInData (cleanTitlesInData
        (JObj [(''_id'', JNum 1), (''title'', JStr (dquote # ''Hello World'' @ [dquote, CHR '' '']))]))
     = JObj [(''_id'', JNum 1), (''title'', JStr ''Hello World'')]"
proof -
  let ?x = "JObj [(''_id'', JNum 1), (''title'', JStr (dquote # ''Hello World'' @ [dquote, CHR '' '']))]"
  have free: "no_proto_key ?x" by simp
  from cleanTitlesInData_idempotent_iff [OF free] free show ?thesis
    by (simp add: cleanTitle_def trim_def is_ws_def startsWith_def endsWith_def slice_1_m1_def
        dquote_def squote_def settled_def enclosed_def object_of_assignments_def)
qed

text \<open>
  Claim C10 says that the normalizer keeps the key set of every object.  The code
  assigns each key with \<^verbatim>\<open>cleaned[key] = ...\<close>; for the key \<^verbatim>\<open>__proto__\<close>, which \<^verbatim>\<open>JSON.parse\<close>
  makes an own key, that assignment calls the setter of \<^verbatim>\<open>Object.prototype\<close>.  From
  \<^verbatim>\<open>{"__proto__": {"title": " a "}, "b": 1}\<close> the code returns an object whose only own key
  is \<^verbatim>\<open>b\<close>, and whose prototype is \<^verbatim>\<open>{"title": "a"}\<close>.
\<close>

theorem cleanTitlesInData_drops_proto_key:
  "cleanTitlesInData (JObj [(''__proto__'', JObj [(''title'', JStr '' a '')]), (''b'', JNum 1)])
   = JObjWith (JObj [(''title'', JStr ''a'')]) [(''b'', JNum 1)]"
  by (simp add: cleanTitle_def trim_def is_ws_def startsWith_def endsWith_def slice_1_m1_def
      dquote_def squote_def object_of_assignments_def set_prototype_def object_with_def)

text \<open>
  Where no object has a key \<^verbatim>\<open>__proto__\<close>, the structure is preserved: the output of the
  normalizer has the shape of its input and differs from it at most at strings stored
  under a key \<^verbatim>\<open>title\<close>.
\<close>

lemma cleanTitlesInData_frame_without_proto_key:
  "parsed x \<Longrightarrow> no_proto_key x \<Longrightarrow> title_frame x (cleanTitlesInData x)"
proof (induction x rule: cleanTitlesInData.induct)
  case (1 xs)
  then show ?case by (simp add: list_all2_map2 list_all2_same list_all_iff)
next
  case (2 kvs)
  from "2.prems" have keys: "\<forall>(key, v) \<in> set kvs. key \<noteq> ''__proto__''"
    by (auto simp: list_all_iff)
  have "title_frame v (cleanTitlesInData v)"
    if "(key, v) \<in> set kvs" "\<not> (key = ''title'' \<and> is_string v)" "is_object v" for key v
  proof -
    have "parsed v" using "2.prems"(1) that(1) by (auto simp: list_all_iff)
    moreover have "no_proto_key v" using "2.prems"(2) that(1,3) by (auto simp: list_all_iff)
    ultimately show ?thesis using "2.IH" [OF that(1) refl that(2,3)] by simp
  qed
  then show ?case
    using clean_entries_plain [OF keys] clean_entries_keys [of kvs]
    by (auto simp: list_all2_map2 list_all2_same title_frame_prim split: if_splits)
qed simp_all

section \<open>Properties of field projection\<close>

text \<open>
  Claim C7 says that projection over a record outputs a key exactly when the key is in
  the record and in the field list.  The code tests \<^verbatim>\<open>field in obj\<close>, which is also true
  of what the record inherits from \<^verbatim>\<open>Object.prototype\<close>.  With the field list
  \<^verbatim>\<open>["toString", "_id"]\<close> over the record \<^verbatim>\<open>{_id: 1}\<close> the output has the own key \<^verbatim>\<open>toString\<close>,
  holding the built-in method, though the record has no such key.
\<close>

theorem filterObjectFields_copies_inherited:
  "filterObjectFields (JObj [(''_id'', JNum 1)]) [''toString'', ''_id'']
   = Inr (JObj [(''toString'', JBuiltin (BuiltinFunction ''Object.prototype.toString'')),
                (''_id'', JNum 1)])"
  by (simp add: filterObjectFields_def has_property_def get_property_def assign_def
      lookup_ObjectPrototype_def OBJECT_PROTOTYPE_METHODS_def object_with_def)

text \<open>
  The same defect swallows an own key \<^verbatim>\<open>__proto__\<close> of the record that the field list names:
  the assignment \<^verbatim>\<open>filtered["__proto__"] = ...\<close> calls the setter.
\<close>

lemma filterObjectFields_swallows_proto_key:
  "filterObjectFields (JObj [(''_id'', JNum 1), (''__proto__'', JObj [(''x'', JNum 2)])])
     [''__proto__'', ''_id'']
   = Inr (JObjWith (JObj [(''x'', JNum 2)]) [(''_id'', JNum 1)])"
  by (simp add: filterObjectFields_def has_property_def get_property_def assign_def
      lookup_ObjectPrototype_def OBJECT_PROTOTYPE_METHODS_def object_with_def set_prototype_def)

text \<open>
  For a field list that names neither \<^verbatim>\<open>__proto__\<close> nor a method of \<^verbatim>\<open>Object.prototype\<close>, the
  projection of a record has a key exactly when the key is in the field list and in the
  record, with the record's value.
\<close>

lemma fold_project:
  assumes "\<forall>f \<in> set fieldList. \<not> inherited_name f"
  shows "\<exists>filtered.
      fold (\<lambda>field filtered.
              if has_property (JObj obj) field
              then assign filtered field (the (get_property (JObj obj) field))
              else filtered) fieldList (JObj acc) = JObj filtered
      \<and> (distinct (map fst acc) \<longrightarrow> distinct (map fst filtered))
      \<and> (\<forall>k. map_of filtered k
            = (if k \<in> set fieldList \<and> map_of obj k \<noteq> None then map_of obj k else map_of acc k))"
  using assms
proof (induction fieldList arbitrary: acc)
  case Nil
  then show ?case by simp
next
  case (Cons f fs)
  then have f: "f \<noteq> ''__proto__''" "f \<notin> set OBJECT_PROTOTYPE_METHODS"
    by (simp_all add: inherited_name_def)
  have has: "has_property (JObj obj) f = (map_of obj f \<noteq> None)"
    using f by (simp add: has_property_def lookup_ObjectPrototype_def split: option.splits)
  have get: "map_of obj f = Some v \<Longrightarrow> get_property (JObj obj) f = Some v" for v
    by (simp add: get_property_def)
  have put: "assign (JObj acc) f v = JObj (AList.update f v acc)" for v
    using f by (simp add: assign_def lookup_ObjectPrototype_def object_with_def)
  show ?case
  proof (cases "map_of obj f")
    case None
    with Cons.IH [of acc] Cons.prems has show ?thesis by auto
  next
    case (Some v)
    from Cons.IH [of "AList.update f v acc"] Cons.prems obtain filtered where
      "fold (\<lambda>field filtered.
              if has_property (JObj obj) field
              then assign filtered field (the (get_property (JObj obj) field))
              else filtered) fs (JObj (AList.update f v acc)) = JObj filtered"
      "distinct (map fst (AList.update f v acc)) \<longrightarrow> distinct (map fst filtered)"
      "\<forall>k. map_of filtered k
            = (if k \<in> set fs \<and> map_of obj k \<noteq> None then map_of obj k
               else map_of (AList.update f v acc) k)"
      by auto
    with Some has get [OF Some] put [of v] show ?thesis
      by (auto simp: update_conv' distinct_update)
  qed
qed

lemma filterObjectFields_own_fields:
  assumes "\<forall>f \<in> set fieldList. \<not> inherited_name f"
  shows "\<exists>filtered. filterObjectFields (JObj obj) fieldList = Inr (JObj filtered)
      \<and> distinct (map fst filtered)
      \<and> (\<forall>k. map_of filtered k = (if k \<in> set fieldList then map_of obj k else None))"
proof (cases "fieldList = []")
  case True
  then show ?thesis by (simp add: filterObjectFields_def)
next
  case False
  from fold_project [OF assms, of obj "[]"] obtain filtered where
    "fold (\<lambda>field filtered.
              if has_property (JObj obj) field
              then assign filtered field (the (get_property (JObj obj) field))
              else filtered) fieldList (JObj []) = JObj filtered"
    "distinct (map fst filtered)"
    "\<forall>k. map_of filtered k
            = (if k \<in> set fieldList \<and> map_of obj k \<noteq> None then map_of obj k else None)"
    by auto
  with False show ?thesis
    by (auto simp: filterObjectFields_def)
qed

text \<open>
  Claim C6: for every envelope and every field selector that resolves to the empty field
  list, \<open>filterApiResponse\<close> returns the envelope without its \<^verbatim>\<open>item\<close> and \<^verbatim>\<open>items\<close> keys, every
  other top-level key unchanged.
\<close>

theorem filterApiResponse_empty_field_list:
  assumes "resolveFieldList f = []"
  shows "\<exists>metadata. filterApiResponse data (Some f) = Inr metadata
      \<and> metadata = filter (\<lambda>(key, v). key \<noteq> ''item'' \<and> key \<noteq> ''items'') data
      \<and> (\<forall>k. map_of metadata k = (if k = ''item'' \<or> k = ''items'' then None else map_of data k))"
proof -
  have "map_of (filter (\<lambda>(key, v). key \<noteq> ''item'' \<and> key \<noteq> ''items'') data) k
        = (if k = ''item'' \<or> k = ''items'' then None else map_of data k)" for k
    by (induction data) auto
  with assms show ?thesis
    by (simp add: filterApiResponse_def)
qed

text \<open>\<^verbatim>\<open>{result:true, items:[...], count:3}\<close> yields \<^verbatim>\<open>{result:true, count:3}\<close>.\<close>

theorem filterApiResponse_empty_field_list_witness:
  "resolveFieldList (FieldArray []) = []
   \<and> filterApiResponse
       [(''result'', JBool True), (''items'', JArr [JObj [(''_id'', JNum 1)]]), (''count'', JNum 3)]
       (Some (FieldArray []))
     = Inr [(''result'', JBool True), (''count'', JNum 3)]"
  using filterApiResponse_empty_field_list
    [of "FieldArray []"
        "[(''result'', JBool True), (''items'', JArr [JObj [(''_id'', JNum 1)]]), (''count'', JNum 3)]"]
  by simp

section \<open>Properties of the gateway client\<close>

lemma handleResponse_not_null: "handleResponse response = Inr r \<Longrightarrow> r \<noteq> JNull"
  by (auto simp: handleResponse_def clean_not_null split: option.splits if_splits)

lemma request_sent: "sent (snd (request svc rq w)) = sent w @ [rq]"
  by (simp add: request_def split: prod.splits)

lemma request_watchTimestamps:
  "watchTimestamps (snd (request svc rq w)) = watchTimestamps w"
  by (simp add: request_def split: prod.splits)

lemma request_not_null: "fst (request svc rq w) = Inr r \<Longrightarrow> r \<noteq> JNull"
  by (auto simp: request_def handleResponse_not_null split: prod.splits sum.splits)

lemmas run_defs =
  getRaindrop_def getRaindrops_def createRaindrop_def updateRaindrop_def emptyTrash_def
  request_def scripted_def ok_response_def failed_response_def start_def handleResponse_def
  get_property_def object_of_assignments_def

section \<open>Properties of the highlight operations\<close>

lemma last_nat_text: "last (nat_text n) = digit_char (n mod 10)"
  by (subst nat_text.simps) simp

lemma digit_char_code: "d < 10 \<Longrightarrow> of_char (digit_char d) = 48 + d"
  by (simp add: digit_char_def)

lemma nat_text_not_id: "nat_text n \<noteq> ''_id''"
proof
  assume "nat_text n = ''_id''"
  then have "last (nat_text n) = CHR ''d''" by simp
  then have "of_char (digit_char (n mod 10)) = (of_char CHR ''d'' :: nat)"
    by (simp add: last_nat_text)
  then show False by (simp add: digit_char_code)
qed

lemma index_of_key_id: "index_of_key n ''_id'' = None"
  by (simp add: index_of_key_def find_None_iff nat_text_not_id)

lemma builtin_no_id:
  "lookup_ObjectPrototype ''_id'' = NotFound" "lookup_ArrayPrototype ''_id'' = NotFound"
  by (simp_all add: lookup_ObjectPrototype_def lookup_ArrayPrototype_def
      OBJECT_PROTOTYPE_METHODS_def ARRAY_PROTOTYPE_METHODS_def)

lemma has_id_is_record:
  assumes "get_property h ''_id'' = Some v"
  shows "own_property h k = map_of (spread h) k"
proof (cases h)
  case (JArr xs)
  with assms show ?thesis
    by (simp add: get_property_def index_of_key_id builtin_no_id)
next
  case (JStr s)
  with assms show ?thesis
    by (simp add: get_property_def index_of_key_id)
next
  case (JBuiltin b)
  with assms show ?thesis
    by (cases b) (simp_all add: get_property_def builtin_no_id)
qed (use assms in \<open>simp_all add: get_property_def\<close>)

text \<open>
  On a value whose prototype has not been replaced, such as any value parsed from JSON,
  the read \<^verbatim>\<open>h._id\<close> gives the own property.
\<close>

lemma get_id_own:
  assumes "\<And>p kvs. h \<noteq> JObjWith p kvs"
  shows "get_property h ''_id'' = own_property h ''_id''"
proof (cases h)
  case (JObj kvs)
  then show ?thesis
    by (simp add: get_property_def builtin_no_id split: option.splits)
next
  case (JArr xs)
  then show ?thesis
    by (simp add: get_property_def index_of_key_id builtin_no_id)
next
  case (JStr s)
  then show ?thesis
    by (simp add: get_property_def index_of_key_id)
next
  case (JBuiltin b)
  then show ?thesis
    by (cases b) (simp_all add: get_property_def builtin_no_id)
qed (use assms in \<open>simp_all add: get_property_def\<close>)

lemma findIndex_absent:
  "\<forall>h \<in> set hs. h \<noteq> JNull \<and> get_property h ''_id'' \<noteq> Some (JStr highlightId)
   \<Longrightarrow> findIndex highlightId hs = Inr None"
  by (induction hs) simp_all

lemma findIndex_present:
  "JNull \<notin> set hs \<Longrightarrow> \<exists>h \<in> set hs. get_property h ''_id'' = Some (JStr highlightId) \<Longrightarrow>
   \<exists>i < length hs. findIndex highlightId hs = Inr (Some i)
      \<and> get_property (hs ! i) ''_id'' = Some (JStr highlightId)
      \<and> (\<forall>j < i. get_property (hs ! j) ''_id'' \<noteq> Some (JStr highlightId))"
proof (induction hs)
  case Nil
  then show ?case by simp
next
  case (Cons h hs)
  show ?case
  proof (cases "get_property h ''_id'' = Some (JStr highlightId)")
    case True
    with Cons.prems show ?thesis by (intro exI [of _ 0]) auto
  next
    case False
    with Cons obtain i where i: "i < length hs" "findIndex highlightId hs = Inr (Some i)"
      "get_property (hs ! i) ''_id'' = Some (JStr highlightId)"
      "\<forall>j < i. get_property (hs ! j) ''_id'' \<noteq> Some (JStr highlightId)"
      by auto
    with False Cons.prems show ?thesis
      by (intro exI [of _ "Suc i"]) (auto simp: less_Suc_eq_0_disj)
  qed
qed

text \<open>
  Claim C4: for every bookmark whose fetched highlight array contains no element with the
  requested highlight id, highlight update fails with the not-found error
  (\<^verbatim>\<open>Highlight with ID '...' not found in raindrop ...\<close>) and issues no update call: the only
  request sent is the initial fetch of the bookmark.  The id of an element is what the
  read \<^verbatim>\<open>h._id\<close> gives.
\<close>

theorem updateHighlight_not_found:
  assumes "fst (getRaindrop svc raindropId w) = Inr raindrop"
      and "existingHighlights raindrop = Inr (JArr hs)"
      and "\<forall>h \<in> set hs. h \<noteq> JNull \<and> get_property h ''_id'' \<noteq> Some (JStr highlightId)"
  shows "updateHighlight svc raindropId highlightId updates w
           = (Inl (highlightNotFound highlightId raindropId), snd (getRaindrop svc raindropId w))
         \<and> sent (snd (updateHighlight svc raindropId highlightId updates w))
           = sent w @ [getRaindrop_request raindropId]"
proof -
  have "findIndex highlightId hs = Inr None"
    using assms(3) by (rule findIndex_absent)
  with assms(1,2) have
    "updateHighlight svc raindropId highlightId updates w
       = (Inl (highlightNotFound highlightId raindropId), snd (getRaindrop svc raindropId w))"
    by (cases "getRaindrop svc raindropId w") (simp add: updateHighlight_def)
  then show ?thesis
    by (simp add: getRaindrop_def request_sent)
qed

text \<open>
  The bookmark 5 has the one highlight \<^verbatim>\<open>h1\<close>; updating \<^verbatim>\<open>h2\<close> fails after the fetch alone.
\<close>

theorem updateHighlight_not_found_witness:
  "fst (getRaindrop scripted 5
          (start [ok_response (JObj [(''result'', JBool True),
             (''item'', JObj [(''_id'', JNum 5),
                (''highlights'', JArr [JObj [(''_id'', JStr ''h1''), (''text'', JStr ''foo'')]])])])]))
     = Inr (JObj [(''result'', JBool True),
             (''item'', JObj [(''_id'', JNum 5),
                (''highlights'', JArr [JObj [(''_id'', JStr ''h1''), (''text'', JStr ''foo'')]])])])
   \<and> updateHighlight scripted 5 ''h2'' \<lparr>upd_text = Some ''bar'', upd_color = None, upd_note = None\<rparr>
          (start [ok_response (JObj [(''result'', JBool True),
             (''item'', JObj [(''_id'', JNum 5),
                (''highlights'', JArr [JObj [(''_id'', JStr ''h1''), (''text'', JStr ''foo'')]])])])])
     = (Inl (highlightNotFound ''h2'' 5),
        \<lparr>remote = [],
         sent = [getRaindrop_request 5],
         watchTimestamps = Map.empty\<rparr>)"
proof -
  let ?body = "JObj [(''result'', JBool True),
             (''item'', JObj [(''_id'', JNum 5),
                (''highlights'', JArr [JObj [(''_id'', JStr ''h1''), (''text'', JStr ''foo'')]])])]"
  let ?w = "start [ok_response ?body]"
  have fetched: "fst (getRaindrop scripted 5 ?w) = Inr ?body"
    by (simp add: run_defs)
  have highlights: "existingHighlights ?body
      = Inr (JArr [JObj [(''_id'', JStr ''h1''), (''text'', JStr ''foo'')]])"
    by (simp add: existingHighlights_def get_property_def)
  have absent: "\<forall>h \<in> set [JObj [(''_id'', JStr ''h1''), (''text'', JStr ''foo'')]].
      h \<noteq> JNull \<and> get_property h ''_id'' \<noteq> Some (JStr ''h2'')"
    by (simp add: get_property_def)
  have snd_eq: "snd (getRaindrop scripted 5 ?w) = \<lparr>remote = [],
         sent = [getRaindrop_request 5],
         watchTimestamps = Map.empty\<rparr>"
    by (simp add: run_defs)
  from updateHighlight_not_found [OF fetched highlights absent] fetched snd_eq
  show ?thesis by simp
qed

text \<open>
  Claim C3: for every bookmark whose fetched highlight array contains an element with the
  requested id, highlight delete issues exactly one update, after the fetch.  The
  highlight array of that update has the length of the fetched array; the first element
  with the id has its \<^verbatim>\<open>text\<close> set to the empty string and its other properties unchanged;
  every other element is unchanged.  No entry is removed.  The id of an element is what
  the read \<^verbatim>\<open>h._id\<close> gives.
\<close>

theorem deleteHighlight_blanks_text:
  assumes fetched: "fst (getRaindrop svc raindropId w) = Inr raindrop"
      and highlights: "existingHighlights raindrop = Inr (JArr hs)"
      and no_null: "JNull \<notin> set hs"
      and present: "\<exists>h \<in> set hs. get_property h ''_id'' = Some (JStr highlightId)"
  shows "\<exists>i hs'. i < length hs
           \<and> get_property (hs ! i) ''_id'' = Some (JStr highlightId)
           \<and> (\<forall>j < i. get_property (hs ! j) ''_id'' \<noteq> Some (JStr highlightId))
           \<and> length hs' = length hs
           \<and> (\<forall>j < length hs. j \<noteq> i \<longrightarrow> hs' ! j = hs ! j)
           \<and> own_property (hs' ! i) ''text'' = Some (JStr [])
           \<and> (\<forall>k. k \<noteq> ''text'' \<longrightarrow> own_property (hs' ! i) k = own_property (hs ! i) k)
           \<and> deleteHighlight svc raindropId highlightId w
               = updateRaindrop svc raindropId (JObj [(''highlights'', JArr hs')])
                   (snd (getRaindrop svc raindropId w))
           \<and> sent (snd (deleteHighlight svc raindropId highlightId w))
               = sent w @ [getRaindrop_request raindropId,
                           updateRaindrop_request raindropId (JObj [(''highlights'', JArr hs')])]"
proof -
  from findIndex_present [OF no_null present] obtain i where i:
    "i < length hs" "findIndex highlightId hs = Inr (Some i)"
    "get_property (hs ! i) ''_id'' = Some (JStr highlightId)"
    "\<forall>j < i. get_property (hs ! j) ''_id'' \<noteq> Some (JStr highlightId)"
    by blast
  have own: "own_property (hs ! i) k = map_of (spread (hs ! i)) k" for k
    using i(3) by (rule has_id_is_record)
  define hs' where "hs' = hs[i := JObj (AList.update ''text'' (JStr []) (spread (hs ! i)))]"
  have run: "deleteHighlight svc raindropId highlightId w
      = updateRaindrop svc raindropId (JObj [(''highlights'', JArr hs')])
          (snd (getRaindrop svc raindropId w))"
    using fetched highlights i(2)
    by (cases "getRaindrop svc raindropId w") (simp add: deleteHighlight_def hs'_def)
  have log: "sent (snd (deleteHighlight svc raindropId highlightId w))
      = sent w @ [getRaindrop_request raindropId,
                  updateRaindrop_request raindropId (JObj [(''highlights'', JArr hs')])]"
    by (simp add: run updateRaindrop_def getRaindrop_def request_sent)
  have "length hs' = length hs" by (simp add: hs'_def)
  moreover have "\<forall>j < length hs. j \<noteq> i \<longrightarrow> hs' ! j = hs ! j" by (simp add: hs'_def)
  moreover have "own_property (hs' ! i) ''text'' = Some (JStr [])"
    using i(1) by (simp add: hs'_def update_conv')
  moreover have "\<forall>k. k \<noteq> ''text'' \<longrightarrow> own_property (hs' ! i) k = own_property (hs ! i) k"
    using i(1) by (simp add: hs'_def update_conv' own)
  ultimately show ?thesis using i(1,3,4) run log by blast
qed

text \<open>
  Highlights \<^verbatim>\<open>[{_id:"h1",text:"foo"}]\<close>: deleting \<^verbatim>\<open>h1\<close> sends the update
  \<^verbatim>\<open>{highlights: [{_id:"h1",text:""}]}\<close>.
\<close>

theorem deleteHighlight_blanks_text_witness:
  "sent (snd (deleteHighlight scripted 5 ''h1''
          (start [ok_response (JObj [(''result'', JBool True),
                    (''item'', JObj [(''_id'', JNum 5),
                       (''highlights'', JArr [JObj [(''_id'', JStr ''h1''), (''text'', JStr ''foo'')]])])]),
                  ok_response (JObj [(''result'', JBool True)])])))
   = [getRaindrop_request 5,
      updateRaindrop_request 5
        (JObj [(''highlights'', JArr [JObj [(''_id'', JStr ''h1''), (''text'', JStr [])]])])]"
proof -
  let ?hs = "[JObj [(''_id'', JStr ''h1''), (''text'', JStr ''foo'')]]"
  let ?body = "JObj [(''result'', JBool True),
                    (''item'', JObj [(''_id'', JNum 5), (''highlights'', JArr ?hs)])]"
  let ?w = "start [ok_response ?body, ok_response (JObj [(''result'', JBool True)])]"
  have fetched: "fst (getRaindrop scripted 5 ?w) = Inr ?body"
    by (simp add: run_defs)
  have highlights: "existingHighlights ?body = Inr (JArr ?hs)"
    by (simp add: existingHighlights_def get_property_def)
  have no_null: "JNull \<notin> set ?hs" by simp
  have present: "\<exists>h \<in> set ?hs. get_property h ''_id'' = Some (JStr ''h1'')"
    by (simp add: get_property_def)
  from deleteHighlight_blanks_text [OF fetched highlights no_null present]
  obtain i hs' where r: "i < length ?hs" "length hs' = length ?hs"
    "own_property (hs' ! i) ''text'' = Some (JStr [])"
    "\<forall>k. k \<noteq> ''text'' \<longrightarrow> own_property (hs' ! i) k = own_property (?hs ! i) k"
    "sent (snd (deleteHighlight scripted 5 ''h1'' ?w))
       = sent ?w @ [getRaindrop_request 5,
                    updateRaindrop_request 5 (JObj [(''highlights'', JArr hs')])]"
    by blast
  have "sent (snd (deleteHighlight scripted 5 ''h1'' ?w))
       = [getRaindrop_request 5,
          updateRaindrop_request 5
            (JObj [(''highlights'', JArr [JObj [(''_id'', JStr ''h1''), (''text'', JStr [])]])])]"
    by (simp add: deleteHighlight_def existingHighlights_def run_defs)
  then show ?thesis .
qed

section \<open>Properties of the trash tool\<close>

text \<open>
  Claim C8: for every empty-trash invocation whose \<^verbatim>\<open>confirm\<close> argument is not \<^verbatim>\<open>true\<close>, the
  tool answers with the error of the confirmation check and sends no request: the
  delete call against the trash collection is not issued and the service is not
  contacted.
\<close>

theorem emptyTrash_requires_confirm:
  "confirm \<noteq> Some True \<Longrightarrow>
   emptyTrash_tool svc confirm w = (createErrorResponse confirmRequired, w)
   \<and> isError (fst (emptyTrash_tool svc confirm w))
   \<and> sent (snd (emptyTrash_tool svc confirm w)) = sent w
   \<and> remote (snd (emptyTrash_tool svc confirm w)) = remote w"
  by (simp add: emptyTrash_tool_def toolHandler_def emptyTrash_handler_def createErrorResponse_def)

text \<open>\<^verbatim>\<open>confirm: false\<close>: an error response, and the state is as before.\<close>

theorem emptyTrash_requires_confirm_witness:
  "Some False \<noteq> Some True
   \<and> emptyTrash_tool scripted (Some False) (start [ok_response (JObj [(''result'', JBool True)])])
     = (\<lparr>content = Literal ''Error: You must set confirm=true to empty the trash. This action is irreversible.'',
         isError = True\<rparr>,
        start [ok_response (JObj [(''result'', JBool True)])])"
  using emptyTrash_requires_confirm
    [of "Some False" scripted "start [ok_response (JObj [(''result'', JBool True)])]"]
  by (simp add: createErrorResponse_def confirmRequired_def)

section \<open>Properties of the watch operation\<close>

lemma now_value: "isoTimeValue (JStr ''2026-11-03T10:00:00.000Z'') = Some 1793700000000"
  by code_simp

lemma later_value: "isoTimeValue (JStr ''2026-11-03T10:00:01.000Z'') = Some 1793700001000"
  by code_simp

text \<open>
  Claim C2 says that the first watch of a collection (no stored cursor, no \<^verbatim>\<open>since\<close>, no
  \<^verbatim>\<open>resetWatch\<close>) returns count 0 and no new items whatever the service returns.  The code
  compares each item with the clock reading taken before the fetch, so an item stamped
  later than that reading is returned.  Here the clock reads 10:00:00.000 and the
  service returns an item created at 10:00:01.000: the call returns it, with count 1.
\<close>

theorem watchCollection_first_call_later_item:
  "fst (watchCollection scripted isoTimeValue ''2026-11-03T10:00:00.000Z'' 7 None None
     (start [ok_response (JObj [(''result'', JBool True),
        (''items'', JArr [JObj [(''_id'', JNum 1),
                                (''created'', JStr ''2026-11-03T10:00:01.000Z'')]])])]))
   = Inr \<lparr>wr_collectionId = 7,
          wr_since = ''2026-11-03T10:00:00.000Z'',
          wr_until = ''2026-11-03T10:00:00.000Z'',
          wr_newItems = [JObj [(''_id'', JNum 1), (''created'', JStr ''2026-11-03T10:00:01.000Z'')]],
          wr_count = 1\<rparr>"
  by (simp add: watchCollection_def checkSince_of_def result_items_def createdAfter_def
      now_value later_value run_defs Let_def)

text \<open>
  What the first watch does in general: it returns the fetched items created strictly
  after the clock reading, and stores the reading as the cursor of the collection.
\<close>

lemma createdAfter_total:
  "item \<noteq> JNull \<Longrightarrow> \<exists>b. createdAfter newDate sinceDate item = Inr b"
  by (auto simp: createdAfter_def split: option.splits)

lemma filter_throwing_no_null:
  "JNull \<notin> set items \<Longrightarrow>
   filter_throwing (createdAfter newDate sinceDate) items
     = Inr (filter (\<lambda>item. createdAfter newDate sinceDate item = Inr True) items)"
proof (induction items)
  case Nil
  then show ?case by simp
next
  case (Cons item items)
  then obtain b where "createdAfter newDate sinceDate item = Inr b"
    using createdAfter_total [of item newDate sinceDate] by auto
  with Cons show ?case by simp
qed

lemma getRaindrops_watchTimestamps:
  "watchTimestamps (snd (getRaindrops svc collectionId params w)) = watchTimestamps w"
  by (simp add: getRaindrops_def request_watchTimestamps)

lemma watchCollection_first_call:
  assumes "watchTimestamps w collectionId = None"
      and "since = None \<or> since = Some []"
      and "resetWatch \<noteq> Some True"
      and "fst (getRaindrops svc collectionId [(''sort'', ''-created''), (''perpage'', ''50'')] w)
             = Inr result"
      and "result_items result = Inr items"
      and "JNull \<notin> set items"
  shows "\<exists>w'. watchCollection svc newDate now collectionId since resetWatch w
           = (Inr \<lparr>wr_collectionId = collectionId, wr_since = now, wr_until = now,
                   wr_newItems = filter (\<lambda>item. createdAfter newDate (newDate (JStr now)) item = Inr True) items,
                   wr_count = length (filter (\<lambda>item. createdAfter newDate (newDate (JStr now)) item = Inr True) items)\<rparr>,
              w')
         \<and> watchTimestamps w' = (watchTimestamps w)(collectionId \<mapsto> now)"
proof -
  have floor: "checkSince_of w now collectionId since = now"
    using assms(1,2) by (auto simp: checkSince_of_def)
  show ?thesis
    using assms(3,4,5) filter_throwing_no_null [OF assms(6)]
      getRaindrops_watchTimestamps [of svc collectionId "[(''sort'', ''-created''), (''perpage'', ''50'')]" w]
    by (cases "getRaindrops svc collectionId [(''sort'', ''-created''), (''perpage'', ''50'')] w")
       (simp add: watchCollection_def floor Let_def)
qed

section \<open>Properties of bulk creation\<close>

lemma createRaindrop_sent:
  "createRaindrop svc d w = (r, w') \<Longrightarrow> sent w' = sent w @ [createRaindrop_request d]"
  using request_sent [of svc "createRaindrop_request d" w] by (simp add: createRaindrop_def)

lemma createRaindrop_not_null:
  "createRaindrop svc d w = (Inr r, w') \<Longrightarrow> r \<noteq> JNull"
  using request_not_null [of svc "createRaindrop_request d" w r] by (simp add: createRaindrop_def)

lemma bulk_loop_invariant:
  "bulk_loop svc c i xs res w = (R, w') \<Longrightarrow>
   successful res = length (created res) \<Longrightarrow> failed res = length (errors res) \<Longrightarrow>
   successful R = length (created R) \<and> failed R = length (errors R)
   \<and> successful R + failed R \<le> successful res + failed res + length xs
   \<and> total R = total res
   \<and> (\<not> c \<longrightarrow> failed R \<le> failed res + 1)
   \<and> (\<not> c \<longrightarrow> failed res \<le> failed R)"
proof (induction xs arbitrary: i res w)
  case Nil
  then show ?case by auto
next
  case (Cons x xs)
  obtain r w1 where call: "createRaindrop svc (raindrop_data x) w = (r, w1)"
    by (cases "createRaindrop svc (raindrop_data x) w")
  show ?case
  proof (cases r)
    case (Inl e)
    show ?thesis
    proof (cases c)
      case True
      with Cons.prems call Inl have
        "bulk_loop svc c (Suc i) xs (record_failure i x e res) w1 = (R, w')"
        by simp
      from Cons.IH [OF this] Cons.prems(2,3) True show ?thesis
        by (auto simp: record_failure_def)
    next
      case False
      with Cons.prems call Inl show ?thesis
        by (auto simp: record_failure_def)
    qed
  next
    case (Inr result)
    with call have "result \<noteq> JNull" by (auto dest: createRaindrop_not_null)
    with Cons.prems call Inr have
      "bulk_loop svc c (Suc i) xs
         (res\<lparr>successful := successful res + 1,
              created := created res @ [get_property result ''item'']\<rparr>) w1 = (R, w')"
      by simp
    from Cons.IH [OF this] Cons.prems(2,3) show ?thesis
      by auto
  qed
qed

lemma bulk_loop_prefix:
  "creates_all svc pre w = Some wk \<Longrightarrow>
   \<exists>items. length items = length pre
     \<and> bulk_loop svc c i (pre @ rest) res w
       = bulk_loop svc c (i + length pre) rest
           (res\<lparr>successful := successful res + length pre, created := created res @ items\<rparr>) wk
     \<and> sent wk = sent w @ map (\<lambda>r. createRaindrop_request (raindrop_data r)) pre"
proof (induction pre arbitrary: i res w)
  case Nil
  then show ?case by simp
next
  case (Cons x pre)
  obtain r w1 where call: "createRaindrop svc (raindrop_data x) w = (r, w1)"
    by (cases "createRaindrop svc (raindrop_data x) w")
  with Cons.prems obtain result where r: "r = Inr result" and rest: "creates_all svc pre w1 = Some wk"
    by (cases r) auto
  from call r have nn: "result \<noteq> JNull" by (auto dest: createRaindrop_not_null)
  let ?res1 = "res\<lparr>successful := successful res + 1,
                  created := created res @ [get_property result ''item'']\<rparr>"
  from Cons.IH [OF rest, of "Suc i" ?res1] obtain items where items:
    "length items = length pre"
    "bulk_loop svc c (Suc i) (pre @ rest) ?res1 w1
       = bulk_loop svc c (Suc i + length pre) rest
           (?res1\<lparr>successful := successful ?res1 + length pre,
                   created := created ?res1 @ items\<rparr>) wk"
    "sent wk = sent w1 @ map (\<lambda>r. createRaindrop_request (raindrop_data r)) pre"
    by blast
  have "bulk_loop svc c i ((x # pre) @ rest) res w
       = bulk_loop svc c (i + length (x # pre)) rest
           (res\<lparr>successful := successful res + length (x # pre),
                created := created res @ (get_property result ''item'' # items)\<rparr>) wk"
    using call r nn items(2) by simp
  moreover have "sent wk = sent w @ map (\<lambda>r. createRaindrop_request (raindrop_data r)) (x # pre)"
    using items(3) createRaindrop_sent [OF call] by simp
  moreover have "length (get_property result ''item'' # items) = length (x # pre)"
    using items(1) by simp
  ultimately show ?case by blast
qed

lemmas bulk_defs =
  createRaindrop_def request_def scripted_def ok_response_def failed_response_def start_def
  handleResponse_def second_fails_def five_items_def get_property_def object_of_assignments_def

text \<open>
  Claim C5: with \<^verbatim>\<open>continueOnError\<close> false, no item after the first failing item is
  attempted.  When the create calls of the items \<open>pre\<close> succeed and the create call of the
  next item fails, the run ends there: the summary has \<^verbatim>\<open>successful\<close> = the number of items
  before the failing one, \<^verbatim>\<open>failed\<close> = 1 and \<^verbatim>\<open>total\<close> = the length of the input, and the
  requests sent are the create calls of the items up to the failing one and no other.
  For five items of which the second fails: successful 1, failed 1, total 5, and no
  create call for the remaining three.
\<close>

theorem bulk_stops_at_first_failure:
  assumes stop: "\<not> continueOnError params"
      and split: "raindrops params = pre @ raindrop # post"
      and before: "creates_all svc pre w = Some wk"
      and fails: "createRaindrop svc (raindrop_data raindrop) wk = (Inl e, w')"
  shows "\<exists>R. bulk_run svc params w = (R, w')
           \<and> total R = length (raindrops params)
           \<and> successful R = length pre
           \<and> failed R = 1
           \<and> length (created R) = length pre
           \<and> errors R = [\<lparr>be_index = length pre, be_link = r_link raindrop, be_error = message e\<rparr>]
           \<and> sent w' = sent w @ map (\<lambda>r. createRaindrop_request (raindrop_data r)) (pre @ [raindrop])"
proof -
  let ?init = "\<lparr>total = length (raindrops params), successful = 0, failed = 0,
                created = [], errors = []\<rparr>"
  from bulk_loop_prefix [OF before, of "continueOnError params" 0 "raindrop # post" ?init]
  obtain items where items: "length items = length pre"
    "bulk_loop svc (continueOnError params) 0 (pre @ raindrop # post) ?init w
       = bulk_loop svc (continueOnError params) (0 + length pre) (raindrop # post)
           (?init\<lparr>successful := successful ?init + length pre,
                   created := created ?init @ items\<rparr>) wk"
    "sent wk = sent w @ map (\<lambda>r. createRaindrop_request (raindrop_data r)) pre"
    by blast
  let ?R = "\<lparr>total = length (raindrops params), successful = length pre, failed = 1,
             created = items,
             errors = [\<lparr>be_index = length pre, be_link = r_link raindrop, be_error = message e\<rparr>]\<rparr>"
  have "bulk_run svc params w = (?R, w')"
    using stop split fails items(2) by (simp add: bulk_run_def record_failure_def)
  moreover have "sent w' = sent w @ map (\<lambda>r. createRaindrop_request (raindrop_data r)) (pre @ [raindrop])"
    using items(3) createRaindrop_sent [OF fails] by simp
  ultimately show ?thesis using items(1) by simp
qed

text \<open>Five items, the second refused by the service.\<close>

theorem bulk_stops_at_first_failure_witness:
  "\<exists>R w'. bulk_run scripted \<lparr>raindrops = five_items, continueOnError = False, minimal = True\<rparr>
             (start second_fails) = (R, w')
      \<and> total R = 5 \<and> successful R = 1 \<and> failed R = 1
      \<and> sent w' = [createRaindrop_request (raindrop_data (link_only ''a'')),
                   createRaindrop_request (raindrop_data (link_only ''b''))]"
proof -
  let ?params = "\<lparr>raindrops = five_items, continueOnError = False, minimal = True\<rparr>"
  let ?wk = "\<lparr>remote = tl second_fails,
              sent = [createRaindrop_request (raindrop_data (link_only ''a''))],
              watchTimestamps = Map.empty\<rparr>"
  let ?w' = "\<lparr>remote = tl (tl second_fails),
              sent = [createRaindrop_request (raindrop_data (link_only ''a'')),
                      createRaindrop_request (raindrop_data (link_only ''b''))],
              watchTimestamps = Map.empty\<rparr>"
  have stop: "\<not> continueOnError ?params" by simp
  have split: "raindrops ?params = [link_only ''a''] @ link_only ''b'' # [link_only ''c'', link_only ''d'', link_only ''e'']"
    by (simp add: five_items_def)
  have before: "creates_all scripted [link_only ''a''] (start second_fails) = Some ?wk"
    by (simp add: bulk_defs)
  have fails: "createRaindrop scripted (raindrop_data (link_only ''b'')) ?wk = (Inl (Error ''Invalid link''), ?w')"
    by (simp add: bulk_defs)
  from bulk_stops_at_first_failure [OF stop split before fails]
  show ?thesis by (auto simp: five_items_def)
qed

text \<open>
  Claim C9: in every summary produced by bulk create, \<^verbatim>\<open>successful\<close> is the number of
  created items, \<^verbatim>\<open>failed\<close> is the number of recorded errors, \<^verbatim>\<open>successful + failed\<close> is at
  most \<^verbatim>\<open>total\<close>, which is the length of the input list, \<^verbatim>\<open>failed\<close> is at most 1 when
  \<^verbatim>\<open>continueOnError\<close> is false, and the \<^verbatim>\<open>success\<close> flag of the response is true exactly
  when \<^verbatim>\<open>failed\<close> is 0.
\<close>

theorem bulk_summary_invariants:
  assumes "bulk_run svc params w = (R, w')"
  shows "successful R = length (created R)
       \<and> failed R = length (errors R)
       \<and> successful R + failed R \<le> total R
       \<and> total R = length (raindrops params)
       \<and> (\<not> continueOnError params \<longrightarrow> failed R \<le> 1)
       \<and> createRaindropsBulk_tool svc params w
           = (createJsonResponse (bulk_response (minimal params) R), w')
       \<and> own_property (bulk_response (minimal params) R) ''success'' = Some (JBool (failed R = 0))"
proof -
  from bulk_loop_invariant [OF assms [unfolded bulk_run_def]]
  have "successful R = length (created R)" "failed R = length (errors R)"
    "successful R + failed R \<le> total R" "total R = length (raindrops params)"
    "\<not> continueOnError params \<longrightarrow> failed R \<le> 1"
    by auto
  moreover have "createRaindropsBulk_tool svc params w
           = (createJsonResponse (bulk_response (minimal params) R), w')"
    using assms by (simp add: createRaindropsBulk_tool_def toolHandler_def createRaindropsBulk_handler_def)
  moreover have "own_property (bulk_response (minimal params) R) ''success'' = Some (JBool (failed R = 0))"
    by (simp add: bulk_response_def)
  ultimately show ?thesis by blast
qed

text \<open>The run of the five items above, and the full response it produces.\<close>

theorem bulk_summary_invariants_witness:
  "\<not> continueOnError \<lparr>raindrops = five_items, continueOnError = False, minimal = False\<rparr>
   \<and> fst (bulk_run scripted \<lparr>raindrops = five_items, continueOnError = False, minimal = False\<rparr>
            (start second_fails))
     = \<lparr>total = 5, successful = 1, failed = 1, created = [Some (JObj [(''_id'', JNum 1)])],
        errors = [\<lparr>be_index = 1, be_link = ''b'', be_error = ''Invalid link''\<rparr>]\<rparr>
   \<and> fst (createRaindropsBulk_tool scripted
            \<lparr>raindrops = five_items, continueOnError = False, minimal = False\<rparr> (start second_fails))
     = createJsonResponse
         (JObj [(''success'', JBool False),
                (''summary'', JObj [(''total'', JNum 5), (''successful'', JNum 1), (''failed'', JNum 1)]),
                (''created'', JArr [JObj [(''_id'', JNum 1)]]),
                (''errors'', JArr [JObj [(''index'', JNum 1), (''link'', JStr ''b''),
                                         (''error'', JStr ''Invalid link'')]])])"
proof -
  let ?params = "\<lparr>raindrops = five_items, continueOnError = False, minimal = False\<rparr>"
  let ?R = "\<lparr>total = 5, successful = 1, failed = 1, created = [Some (JObj [(''_id'', JNum 1)])],
        errors = [\<lparr>be_index = 1, be_link = ''b'', be_error = ''Invalid link''\<rparr>]\<rparr>"
  have results: "fst (bulk_run scripted ?params (start second_fails)) = ?R"
    by (simp add: bulk_run_def bulk_defs record_failure_def link_only_def)
  then have run: "bulk_run scripted ?params (start second_fails)
      = (?R, snd (bulk_run scripted ?params (start second_fails)))"
    by (simp add: prod_eq_iff)
  from bulk_summary_invariants [OF run]
  have "createRaindropsBulk_tool scripted ?params (start second_fails)
           = (createJsonResponse (bulk_response (minimal ?params) ?R),
              snd (bulk_run scripted ?params (start second_fails)))"
    by blast
  then show ?thesis using results
    by (simp add: bulk_response_def bulk_error_json_def)
qed

end
